theory Spec2Isabelle
  imports Complex_Main "HOL-Library.Sublist" "HOL-Library.AList"
begin

section \<open>Python values and exceptions\<close>

text \<open>
  The engine passes values of type \<^verbatim>\<open>Any\<close>: inputs, stage results, use-case
  expectations read from JSON. They are the values JSON can carry, and \<open>PObject\<close> for
  an object of any other class, known by its identity. A dictionary is an association
  list in insertion order, with string keys. Strings are lists of 8-bit characters.
  Floats are the finite ones, as rationals: the code modelled here only compares them.
\<close>

datatype pyval =
    PNone
  | PBool bool
  | PInt int
  | PFloat rat
  | PStr string
  | PList "pyval list"
  | PDict "(string \<times> pyval) list"
  | PObject nat

datatype pytype = NoneType | TBool | TInt | TFloat | TStr | TList | TDict | TObject

fun py_type :: "pyval \<Rightarrow> pytype" where
  "py_type PNone = NoneType"
| "py_type (PBool _) = TBool"
| "py_type (PInt _) = TInt"
| "py_type (PFloat _) = TFloat"
| "py_type (PStr _) = TStr"
| "py_type (PList _) = TList"
| "py_type (PDict _) = TDict"
| "py_type (PObject _) = TObject"

text \<open>Truthiness, as \<^verbatim>\<open>if x:\<close> and \<^verbatim>\<open>a if x else b\<close> test it.\<close>

fun py_truthy :: "pyval \<Rightarrow> bool" where
  "py_truthy PNone = False"
| "py_truthy (PBool b) = b"
| "py_truthy (PInt i) = (i \<noteq> 0)"
| "py_truthy (PFloat r) = (r \<noteq> 0)"
| "py_truthy (PStr s) = (s \<noteq> [])"
| "py_truthy (PList xs) = (xs \<noteq> [])"
| "py_truthy (PDict d) = (d \<noteq> [])"
| "py_truthy (PObject _) = True"

text \<open>
  Equality \<^verbatim>\<open>==\<close>: numbers (booleans included) compare by value, lists element by
  element, dictionaries by key set and value at each key, whatever the order, other
  objects by identity.
\<close>

fun num_of :: "pyval \<Rightarrow> rat option" where
  "num_of (PBool b) = Some (if b then 1 else 0)"
| "num_of (PInt i) = Some (of_int i)"
| "num_of (PFloat r) = Some r"
| "num_of _ = None"

fun py_eq :: "pyval \<Rightarrow> pyval \<Rightarrow> bool" where
  "py_eq PNone b = (b = PNone)"
| "py_eq (PStr s) b = (b = PStr s)"
| "py_eq (PList xs) b = (case b of PList ys \<Rightarrow> list_all2 py_eq xs ys | _ \<Rightarrow> False)"
| "py_eq (PDict d) b =
     (case b of
        PDict e \<Rightarrow>
          list_all (\<lambda>(k, v). case map_of e k of None \<Rightarrow> False | Some w \<Rightarrow> py_eq v w) d
          \<and> list_all (\<lambda>(k, w). k \<in> fst ` set d) e
      | _ \<Rightarrow> False)"
| "py_eq (PObject i) b = (b = PObject i)"
| "py_eq a b = (case (num_of a, num_of b) of (Some x, Some y) \<Rightarrow> x = y | _ \<Rightarrow> False)"

text \<open>
  Exceptions, by the classes the handlers of the source tell apart. \<open>ValueError\<close> and
  \<open>TypeError\<close> stand for those classes and their subclasses, \<open>TimeoutError\<close> for
  \<^verbatim>\<open>asyncio.TimeoutError\<close>, \<open>OtherError\<close> for any other subclass of \<^verbatim>\<open>Exception\<close>; the
  string is \<^verbatim>\<open>str(e)\<close>. \<^verbatim>\<open>GraphExecutionError\<close> is declared in graph/main.py.
\<close>

text \<open>
  Modelled from the spec: \<^verbatim>\<open>NodeExecutionError\<close>, which the node processors raise and
  none of the modules they import declares. The specification makes it the terminal
  wrapper of a node's failure, an exception class beside \<^verbatim>\<open>GraphExecutionError\<close>; it
  is the constructor \<open>NodeExecutionError\<close> below.
\<close>

datatype exn =
    ValueError string
  | TypeError string
  | TimeoutError
  | KeyError string
  | AttributeError string
  | ZeroDivisionError
  | OtherError string
  | NodeExecutionError string
  | GraphExecutionError string

fun exn_str :: "exn \<Rightarrow> string" where
  "exn_str (ValueError m) = m"
| "exn_str (TypeError m) = m"
| "exn_str TimeoutError = []"
| "exn_str (KeyError m) = m"
| "exn_str (AttributeError m) = m"
| "exn_str ZeroDivisionError = ''division by zero''"
| "exn_str (OtherError m) = m"
| "exn_str (NodeExecutionError m) = m"
| "exn_str (GraphExecutionError m) = m"

text \<open>What \<^verbatim>\<open>except (ValueError, TypeError)\<close> and \<^verbatim>\<open>except asyncio.TimeoutError\<close> catch.\<close>

fun is_validation_error :: "exn \<Rightarrow> bool" where
  "is_validation_error (ValueError _) = True"
| "is_validation_error (TypeError _) = True"
| "is_validation_error _ = False"

fun is_timeout :: "exn \<Rightarrow> bool" where
  "is_timeout TimeoutError = True"
| "is_timeout _ = False"

text \<open>
  \<^verbatim>\<open>x in container\<close>, \<^verbatim>\<open>container[key]\<close>, \<^verbatim>\<open>container.get(key, default)\<close>, iteration
  and \<^verbatim>\<open>n <= x\<close>, where the source applies them to values of type \<^verbatim>\<open>Any\<close>.
  Membership in a dictionary is by key (a list or a dictionary is not hashable), in a
  list by equality with an element, in a string by substring (of a string only); only a
  dictionary is subscripted by a string and has \<^verbatim>\<open>get\<close>; only numbers are compared
  with an integer. Every other use raises. The texts of the exceptions these
  operations raise are not modelled.
\<close>

fun py_in :: "pyval \<Rightarrow> pyval \<Rightarrow> exn + bool" where
  "py_in x (PDict d) =
     (case x of
        PStr key \<Rightarrow> Inr (key \<in> fst ` set d)
      | PList _ \<Rightarrow> Inl (TypeError ''unhashable type'')
      | PDict _ \<Rightarrow> Inl (TypeError ''unhashable type'')
      | _ \<Rightarrow> Inr False)"
| "py_in x (PList xs) = Inr (list_ex (py_eq x) xs)"
| "py_in x (PStr s) =
     (case x of
        PStr t \<Rightarrow> Inr (sublist t s)
      | _ \<Rightarrow> Inl (TypeError ''in <string> requires string as left operand''))"
| "py_in x _ = Inl (TypeError ''argument is not iterable'')"

fun py_getitem :: "pyval \<Rightarrow> string \<Rightarrow> exn + pyval" where
  "py_getitem (PDict d) key =
     (case map_of d key of None \<Rightarrow> Inl (KeyError key) | Some v \<Rightarrow> Inr v)"
| "py_getitem (PList xs) key = Inl (TypeError ''list indices must be integers'')"
| "py_getitem (PStr s) key = Inl (TypeError ''string indices must be integers'')"
| "py_getitem _ key = Inl (TypeError ''object is not subscriptable'')"

definition dict_get :: "(string \<times> pyval) list \<Rightarrow> string \<Rightarrow> pyval \<Rightarrow> pyval" where
  "dict_get d key dflt = (case map_of d key of None \<Rightarrow> dflt | Some v \<Rightarrow> v)"

fun py_get :: "pyval \<Rightarrow> string \<Rightarrow> pyval \<Rightarrow> exn + pyval" where
  "py_get (PDict d) key dflt = Inr (dict_get d key dflt)"
| "py_get _ key dflt = Inl (AttributeError ''object has no attribute get'')"

fun py_iter :: "pyval \<Rightarrow> exn + pyval list" where
  "py_iter (PList xs) = Inr xs"
| "py_iter (PDict d) = Inr (map (\<lambda>(k, v). PStr k) d)"
| "py_iter (PStr s) = Inr (map (\<lambda>c. PStr [c]) s)"
| "py_iter _ = Inl (TypeError ''object is not iterable'')"

definition py_int_le :: "int \<Rightarrow> pyval \<Rightarrow> exn + bool" where
  "py_int_le n x =
     (case num_of x of
        None \<Rightarrow> Inl (TypeError ''<= not supported between these instances'')
      | Some r \<Rightarrow> Inr (of_int n \<le> r))"

definition py_int_ge :: "int \<Rightarrow> pyval \<Rightarrow> exn + bool" where
  "py_int_ge n x =
     (case num_of x of
        None \<Rightarrow> Inl (TypeError ''>= not supported between these instances'')
      | Some r \<Rightarrow> Inr (of_int n \<ge> r))"

text \<open>A text between single quotes, as the messages write a name.\<close>

definition quoted :: "string \<Rightarrow> string" where
  "quoted s = [CHR 0x27] @ s @ [CHR 0x27]"

text \<open>\<^verbatim>\<open>type(e).__name__\<close>, for the class each constructor stands for.\<close>

fun exn_class :: "exn \<Rightarrow> string" where
  "exn_class (ValueError _) = ''ValueError''"
| "exn_class (TypeError _) = ''TypeError''"
| "exn_class TimeoutError = ''TimeoutError''"
| "exn_class (KeyError _) = ''KeyError''"
| "exn_class (AttributeError _) = ''AttributeError''"
| "exn_class ZeroDivisionError = ''ZeroDivisionError''"
| "exn_class (OtherError _) = ''Exception''"
| "exn_class (NodeExecutionError _) = ''NodeExecutionError''"
| "exn_class (GraphExecutionError _) = ''GraphExecutionError''"


section \<open>The agent state (state/state.py)\<close>

datatype message = HumanMessage string | AIMessage string

record AgentState =
  input :: pyval
  messages :: "message list"
  context_data :: "(string \<times> pyval) list"
  results :: "(string \<times> pyval) list"
  current_stage :: "string option"
  error :: "string option"
  metadata :: "(string \<times> pyval) list"

text \<open>
  The keyword arguments \<^verbatim>\<open>**updates\<close> of \<^verbatim>\<open>update_state\<close>: a key is absent (\<open>None\<close>)
  or present with a value, which for \<^verbatim>\<open>error\<close> and \<^verbatim>\<open>current_stage\<close> may itself be
  Python's \<^verbatim>\<open>None\<close>. \<^verbatim>\<open>updates.get(k, default)\<close> gives the value when the key is present.
\<close>

record state_updates =
  u_input :: "pyval option"
  u_messages :: "message list option"
  u_context :: "(string \<times> pyval) list option"
  u_results :: "(string \<times> pyval) list option"
  u_current_stage :: "string option option"
  u_error :: "string option option"
  u_metadata :: "(string \<times> pyval) list option"

definition no_updates :: state_updates where
  "no_updates = \<lparr>u_input = None, u_messages = None, u_context = None, u_results = None,
                  u_current_stage = None, u_error = None, u_metadata = None\<rparr>"

definition get_or :: "'a option \<Rightarrow> 'a \<Rightarrow> 'a" where
  "get_or upd dflt = (case upd of None \<Rightarrow> dflt | Some v \<Rightarrow> v)"

definition update_state :: "AgentState \<Rightarrow> state_updates \<Rightarrow> AgentState" where
  "update_state current_state updates =
     \<lparr>input = get_or (u_input updates) (input current_state),
      messages = get_or (u_messages updates) (messages current_state),
      context_data = get_or (u_context updates) (context_data current_state),
      results = get_or (u_results updates) (results current_state),
      current_stage = get_or (u_current_stage updates) (current_stage current_state),
      error = get_or (u_error updates) (error current_state),
      metadata = get_or (u_metadata updates) (metadata current_state)\<rparr>"

definition get_stage_result :: "AgentState \<Rightarrow> string \<Rightarrow> pyval" where
  "get_stage_result state stage =
     (case map_of (results state) stage of None \<Rightarrow> PNone | Some v \<Rightarrow> v)"

text \<open>
  \<^verbatim>\<open>updated_results = state["results"].copy(); updated_results[stage] = result\<close>:
  the value at an existing key is replaced in place, a new key goes to the end.
\<close>

definition set_stage_result :: "AgentState \<Rightarrow> string \<Rightarrow> pyval \<Rightarrow> AgentState" where
  "set_stage_result state stage result =
     (let updated_results = AList.update stage result (results state)
      in update_state state (no_updates\<lparr>u_results := Some updated_results\<rparr>))"

definition add_message :: "AgentState \<Rightarrow> message \<Rightarrow> AgentState" where
  "add_message state msg =
     (let updated_messages = messages state @ [msg]
      in update_state state (no_updates\<lparr>u_messages := Some updated_messages\<rparr>))"

definition set_error :: "AgentState \<Rightarrow> string \<Rightarrow> AgentState" where
  "set_error state err = update_state state (no_updates\<lparr>u_error := Some (Some err)\<rparr>)"

definition clear_error :: "AgentState \<Rightarrow> AgentState" where
  "clear_error state = update_state state (no_updates\<lparr>u_error := Some None\<rparr>)"


section \<open>Checkpoint thread identifiers (checkpoints/checkpointer.py)\<close>

text \<open>
  Both functions return the nested dictionary
  \<^verbatim>\<open>{"configurable": {"thread_id": thread_id}}\<close>; it is kept as a nested association
  list. The optional \<^verbatim>\<open>session_id\<close> (default \<^verbatim>\<open>None\<close>) is a \<open>string option\<close>, and
  the source's test \<^verbatim>\<open>if session_id:\<close> is Python truthiness: it is false for \<^verbatim>\<open>None\<close>
  and for the empty string.
\<close>

type_synonym thread_config = "(string \<times> (string \<times> string) list) list"

definition truthy_str :: "string option \<Rightarrow> bool" where
  "truthy_str s = (case s of None \<Rightarrow> False | Some t \<Rightarrow> t \<noteq> [])"

definition get_thread_config :: "string \<Rightarrow> string option \<Rightarrow> thread_config" where
  "get_thread_config user_id session_id =
     (let thread_id = ''user_'' @ user_id;
          thread_id = (if truthy_str session_id
                       then thread_id @ ''_session_'' @ the session_id
                       else thread_id)
      in [(''configurable'', [(''thread_id'', thread_id)])])"

definition get_versioned_thread_config ::
  "string \<Rightarrow> string \<Rightarrow> string option \<Rightarrow> thread_config" where
  "get_versioned_thread_config user_id version session_id =
     (let base_thread_id = ''user_'' @ user_id;
          base_thread_id = (if truthy_str session_id
                            then base_thread_id @ ''_session_'' @ the session_id
                            else base_thread_id);
          thread_id = base_thread_id @ ''_v'' @ version
      in [(''configurable'', [(''thread_id'', thread_id)])])"

text \<open>The thread id carried by a configuration, for stating the results.\<close>

definition thread_id_of :: "thread_config \<Rightarrow> string option" where
  "thread_id_of cfg =
     (case map_of cfg ''configurable'' of None \<Rightarrow> None
      | Some inner \<Rightarrow> map_of inner ''thread_id'')"


section \<open>Graph-level validation (graph/main.py)\<close>

text \<open>
  \<^verbatim>\<open>str.strip()\<close> removes leading and trailing whitespace; among the 8-bit characters
  the whitespace ones are 9 to 13, 28 to 32, 133 and 160.
\<close>

definition is_space :: "char \<Rightarrow> bool" where
  "is_space c = (let n = (of_char c :: nat)
                 in (9 \<le> n \<and> n \<le> 13) \<or> (28 \<le> n \<and> n \<le> 32) \<or> n = 133 \<or> n = 160)"

definition strip :: "string \<Rightarrow> string" where
  "strip s = rev (dropWhile is_space (rev (dropWhile is_space s)))"

definition validate_graph_input :: "pyval \<Rightarrow> bool" where
  "validate_graph_input input_data =
     (case input_data of
        PNone \<Rightarrow> False
      | PStr s \<Rightarrow> length (strip s) > 0 \<and> length s \<le> 50000
      | PDict d \<Rightarrow> d \<noteq> []
      | PList xs \<Rightarrow> length xs > 0 \<and> length xs \<le> 1000
      | _ \<Rightarrow> True)"

definition validate_graph_output :: "pyval \<Rightarrow> bool" where
  "validate_graph_output result =
     (case result of
        PNone \<Rightarrow> False
      | PDict d \<Rightarrow> ''results'' \<in> fst ` set d \<or> ''messages'' \<in> fst ` set d
      | _ \<Rightarrow> True)"


section \<open>Retries: what a run records\<close>

text \<open>
  A retry loop either returns a value or raises; on the way it makes attempts and
  sleeps between them (\<^verbatim>\<open>await asyncio.sleep(d)\<close>). The model returns the outcome
  together with the number of attempts entered and the delays slept, in order. What
  the code prints is left out.
\<close>

record 'a run_result =
  outcome :: "exn + 'a"
  attempts :: nat
  delays :: "rat list"

definition finished :: "exn + 'a \<Rightarrow> 'a run_result" where
  "finished r = \<lparr>outcome = r, attempts = 1, delays = []\<rparr>"

definition after_sleep :: "rat \<Rightarrow> 'a run_result \<Rightarrow> 'a run_result" where
  "after_sleep d r = \<lparr>outcome = outcome r, attempts = Suc (attempts r), delays = d # delays r\<rparr>"

definition loop_exhausted :: "exn \<Rightarrow> 'a run_result" where
  "loop_exhausted e = \<lparr>outcome = Inl e, attempts = 0, delays = []\<rparr>"

text \<open>\<^verbatim>\<open>max_retries = 3\<close> is a local constant of each of the three functions.\<close>

definition max_retries :: nat where
  "max_retries = 3"


section \<open>Stage nodes (base.py, nodes/llm/llm_3/processor.py, nodes/tools/llm_2/processor.py)\<close>

definition validate_input :: "pyval \<Rightarrow> bool" where
  "validate_input data = (data \<noteq> PNone)"

text \<open>
  A node as \<^verbatim>\<open>run\<close> sees it. \<open>execute_logic a d\<close> is the outcome of the awaited logic
  (\<^verbatim>\<open>_execute_llm_3_llm_logic\<close> under \<^verbatim>\<open>asyncio.wait_for\<close>, \<^verbatim>\<open>_execute_llm_2_logic\<close>)
  at its call in attempt \<open>a\<close>: the value returned or the exception raised, which is
  \<open>TimeoutError\<close> when the deadline passes. \<open>class_name\<close> is the name of the node's
  class (\<^verbatim>\<open>Llm_3LLMNode\<close>, \<^verbatim>\<open>Llm_2ToolNode\<close>), \<open>node_name\<close> the stage name its
  constructor passes to \<^verbatim>\<open>BaseNode\<close>.
\<close>

record node =
  node_name :: string
  class_name :: string
  execute_logic :: "nat \<Rightarrow> pyval \<Rightarrow> exn + pyval"

text \<open>
  The body of the \<^verbatim>\<open>try\<close> in \<^verbatim>\<open>run\<close>, for the LLM node and the tool node alike. After
  the logic has returned, \<^verbatim>\<open>run\<close> evaluates \<^verbatim>\<open>self.validate_output(result)\<close>. Neither
  processor defines \<^verbatim>\<open>validate_output\<close>, and the classes of base.py they inherit from
  (\<^verbatim>\<open>BaseNode\<close>, \<^verbatim>\<open>BaseLLMNode\<close>, \<^verbatim>\<open>BaseToolNode\<close>) define \<^verbatim>\<open>validate_input\<close> only: the
  attribute lookup raises \<^verbatim>\<open>AttributeError\<close>, inside the \<^verbatim>\<open>try\<close>, and neither
  \<^verbatim>\<open>raise ValueError\<close> nor \<^verbatim>\<open>return result\<close> below it is reached. The text of the
  exception, which \<^verbatim>\<open>run\<close> puts into its own message, is the interpreter's
  \<^verbatim>\<open>'<class>' object has no attribute 'validate_output'\<close>.
\<close>

definition node_attempt :: "node \<Rightarrow> pyval \<Rightarrow> nat \<Rightarrow> exn + pyval" where
  "node_attempt nd input_data attempt =
     (if \<not> validate_input input_data
      then Inl (ValueError (''Invalid input data for '' @ node_name nd))
      else case execute_logic nd attempt input_data of
             Inl e \<Rightarrow> Inl e
           | Inr result \<Rightarrow>
               Inl (AttributeError (quoted (class_name nd) @ '' object has no attribute ''
                                      @ quoted ''validate_output'')))"

text \<open>\<^verbatim>\<open>Llm_3LLMNode.run\<close>: \<^verbatim>\<open>retry_delay = 2.0\<close>, three handlers.\<close>

definition llm_retry_delay :: rat where
  "llm_retry_delay = 2"

fun llm_run_loop :: "node \<Rightarrow> pyval \<Rightarrow> nat list \<Rightarrow> pyval run_result" where
  "llm_run_loop nd input_data [] =
     loop_exhausted (NodeExecutionError (''Unexpected error in '' @ node_name nd @ '' execution''))"
| "llm_run_loop nd input_data (attempt # rest) =
     (case node_attempt nd input_data attempt of
        Inr result \<Rightarrow> finished (Inr result)
      | Inl e \<Rightarrow>
          if is_validation_error e
          then finished (Inl (NodeExecutionError
                 (''Validation failed in '' @ node_name nd @ '': '' @ exn_str e)))
          else if is_timeout e
          then (if attempt = max_retries - 1
                then finished (Inl (NodeExecutionError
                       (''LLM timeout in '' @ node_name nd @ '' after 3 attempts'')))
                else after_sleep (llm_retry_delay * (of_nat attempt + 1))
                       (llm_run_loop nd input_data rest))
          else (if attempt = max_retries - 1
                then finished (Inl (NodeExecutionError
                       (''Failed to execute '' @ node_name nd @ '' after 3 attempts: ''
                          @ exn_str e)))
                else after_sleep (llm_retry_delay * 2 ^ attempt)
                       (llm_run_loop nd input_data rest)))"

definition Llm_3LLMNode_run :: "node \<Rightarrow> pyval \<Rightarrow> pyval run_result" where
  "Llm_3LLMNode_run nd input_data = llm_run_loop nd input_data [0..<max_retries]"

text \<open>
  \<^verbatim>\<open>Llm_2ToolNode.run\<close>: \<^verbatim>\<open>retry_delay = 1.0\<close>, no deadline and no handler of its own
  for timeouts, which the last handler takes with every other exception.
\<close>

definition tool_retry_delay :: rat where
  "tool_retry_delay = 1"

fun tool_run_loop :: "node \<Rightarrow> pyval \<Rightarrow> nat list \<Rightarrow> pyval run_result" where
  "tool_run_loop nd input_data [] =
     loop_exhausted (NodeExecutionError (''Unexpected error in '' @ node_name nd @ '' execution''))"
| "tool_run_loop nd input_data (attempt # rest) =
     (case node_attempt nd input_data attempt of
        Inr result \<Rightarrow> finished (Inr result)
      | Inl e \<Rightarrow>
          if is_validation_error e
          then finished (Inl (NodeExecutionError
                 (''Validation failed in '' @ node_name nd @ '': '' @ exn_str e)))
          else (if attempt = max_retries - 1
                then finished (Inl (NodeExecutionError
                       (''Failed to execute '' @ node_name nd @ '' after 3 attempts: ''
                          @ exn_str e)))
                else after_sleep (tool_retry_delay * 2 ^ attempt)
                       (tool_run_loop nd input_data rest)))"

definition Llm_2ToolNode_run :: "node \<Rightarrow> pyval \<Rightarrow> pyval run_result" where
  "Llm_2ToolNode_run nd input_data = tool_run_loop nd input_data [0..<max_retries]"


section \<open>Graph execution (graph/main.py, execute)\<close>

text \<open>
  The compiled graph is LangGraph's; \<open>ainvoke a s\<close> is the outcome of
  \<^verbatim>\<open>asyncio.wait_for(self.graph.ainvoke(initial_state), timeout=120.0)\<close> in attempt \<open>a\<close>:
  the result, of type \<^verbatim>\<open>Any\<close>, or the exception raised, \<open>TimeoutError\<close> when the two
  minutes pass. Python's built-in \<^verbatim>\<open>str\<close> is the parameter \<open>py_str\<close>.
\<close>

definition initial_state :: "(pyval \<Rightarrow> string) \<Rightarrow> string list \<Rightarrow> pyval \<Rightarrow> nat \<Rightarrow> AgentState" where
  "initial_state py_str agent_stages input_data attempt =
     \<lparr>input = input_data,
      messages = [HumanMessage (py_str input_data)],
      context_data = [],
      results = [],
      current_stage = (if agent_stages \<noteq> [] then Some (agent_stages ! 0) else None),
      error = None,
      metadata = [(''attempt'', PInt (int attempt + 1)),
                  (''max_retries'', PInt (int max_retries))]\<rparr>"

definition graph_attempt ::
  "(pyval \<Rightarrow> string) \<Rightarrow> (nat \<Rightarrow> AgentState \<Rightarrow> exn + pyval) \<Rightarrow> string list \<Rightarrow> pyval \<Rightarrow> nat
     \<Rightarrow> exn + pyval" where
  "graph_attempt py_str ainvoke agent_stages input_data attempt =
     (if \<not> validate_graph_input input_data
      then Inl (ValueError ''Invalid input data for graph execution'')
      else case ainvoke attempt (initial_state py_str agent_stages input_data attempt) of
             Inl e \<Rightarrow> Inl e
           | Inr result \<Rightarrow>
               if \<not> validate_graph_output result
               then Inl (ValueError ''Invalid output from graph execution'')
               else Inr result)"

definition graph_retry_delay :: rat where
  "graph_retry_delay = 2"

fun execute_loop ::
  "(pyval \<Rightarrow> string) \<Rightarrow> (nat \<Rightarrow> AgentState \<Rightarrow> exn + pyval) \<Rightarrow> string list \<Rightarrow> pyval \<Rightarrow> nat list
     \<Rightarrow> pyval run_result" where
  "execute_loop py_str ainvoke agent_stages input_data [] =
     loop_exhausted (GraphExecutionError ''Unexpected error in graph execution'')"
| "execute_loop py_str ainvoke agent_stages input_data (attempt # rest) =
     (case graph_attempt py_str ainvoke agent_stages input_data attempt of
        Inr result \<Rightarrow> finished (Inr result)
      | Inl e \<Rightarrow>
          if is_validation_error e
          then finished (Inl (GraphExecutionError (''Graph validation failed: '' @ exn_str e)))
          else if is_timeout e
          then (if attempt = max_retries - 1
                then finished (Inl (GraphExecutionError
                       ''Graph execution timeout after 3 attempts''))
                else after_sleep (graph_retry_delay * (of_nat attempt + 1))
                       (execute_loop py_str ainvoke agent_stages input_data rest))
          else (if attempt = max_retries - 1
                then finished (Inl (GraphExecutionError
                       (''Graph execution failed after 3 attempts: '' @ exn_str e)))
                else after_sleep (graph_retry_delay * 2 ^ attempt)
                       (execute_loop py_str ainvoke agent_stages input_data rest)))"

definition execute ::
  "(pyval \<Rightarrow> string) \<Rightarrow> (nat \<Rightarrow> AgentState \<Rightarrow> exn + pyval) \<Rightarrow> string list \<Rightarrow> pyval
     \<Rightarrow> pyval run_result" where
  "execute py_str ainvoke agent_stages input_data =
     execute_loop py_str ainvoke agent_stages input_data [0..<max_retries]"


section \<open>Stage node functions (graph/nodes/nodes.py)\<close>

text \<open>
  The six wrappers \<^verbatim>\<open>llm_1_node\<close>, ..., \<^verbatim>\<open>llm_3_tool_node\<close> are one text with three
  things changed: the stage, the label of the AI message and the label of the error
  message. \<open>node_function\<close> is that text. \<^verbatim>\<open>_get_node_instance\<close> imports and builds the
  node, which can raise inside the \<^verbatim>\<open>try\<close>: \<open>get_instance\<close> is its outcome, the
  \<^verbatim>\<open>run\<close> of the node or an exception. The handler \<^verbatim>\<open>except Exception\<close> catches every
  value of \<open>exn\<close>.
\<close>

definition stage_order :: "string list" where
  "stage_order = [''llm_1'', ''llm_2'', ''llm_3'']"

definition index_or_minus_one :: "string list \<Rightarrow> string \<Rightarrow> int" where
  "index_or_minus_one stages x =
     (if x \<in> set stages then int (length (takeWhile (\<lambda>y. y \<noteq> x) stages)) else - 1)"

definition previous_results_of :: "AgentState \<Rightarrow> string \<Rightarrow> pyval" where
  "previous_results_of state stage =
     (if results state \<noteq> []
      then (let stages = stage_order;
                current_index = index_or_minus_one stages stage
            in if current_index > 0
               then (let prev_stage = stages ! nat (current_index - 1)
                     in case map_of (results state) prev_stage of
                          None \<Rightarrow> PStr [] | Some v \<Rightarrow> v)
               else PStr [])
      else PStr [])"

definition processing_input_of :: "(pyval \<Rightarrow> string) \<Rightarrow> AgentState \<Rightarrow> string \<Rightarrow> pyval" where
  "processing_input_of py_str state stage =
     (let input_data = input state;
          previous_results = previous_results_of state stage
      in if py_truthy previous_results then previous_results else PStr (py_str input_data))"

definition node_function ::
  "(pyval \<Rightarrow> string) \<Rightarrow> string \<Rightarrow> string \<Rightarrow> string \<Rightarrow> exn + (pyval \<Rightarrow> exn + pyval)
     \<Rightarrow> AgentState \<Rightarrow> AgentState" where
  "node_function py_str stage label error_label get_instance state =
     (case get_instance of
        Inl e \<Rightarrow> set_error state (error_label @ '': '' @ exn_str e)
      | Inr run \<Rightarrow>
          (case run (processing_input_of py_str state stage) of
             Inl e \<Rightarrow> set_error state (error_label @ '': '' @ exn_str e)
           | Inr result \<Rightarrow>
               (let state1 = set_stage_result state stage result;
                    msg = AIMessage (label @ '': '' @ py_str result)
                in add_message state1 msg)))"

text \<open>
  \<open>instances name kind\<close> is the outcome of \<^verbatim>\<open>_get_node_instance(name, kind)\<close>.
\<close>

type_synonym instances = "string \<Rightarrow> string \<Rightarrow> exn + (pyval \<Rightarrow> exn + pyval)"

definition llm_1_node :: "(pyval \<Rightarrow> string) \<Rightarrow> instances \<Rightarrow> AgentState \<Rightarrow> AgentState" where
  "llm_1_node py_str inst =
     node_function py_str ''llm_1'' ''Llm_1'' ''Llm_1 node error'' (inst ''llm_1'' ''llm'')"

definition llm_2_node :: "(pyval \<Rightarrow> string) \<Rightarrow> instances \<Rightarrow> AgentState \<Rightarrow> AgentState" where
  "llm_2_node py_str inst =
     node_function py_str ''llm_2'' ''Llm_2'' ''Llm_2 node error'' (inst ''llm_2'' ''llm'')"

definition llm_3_node :: "(pyval \<Rightarrow> string) \<Rightarrow> instances \<Rightarrow> AgentState \<Rightarrow> AgentState" where
  "llm_3_node py_str inst =
     node_function py_str ''llm_3'' ''Llm_3'' ''Llm_3 node error'' (inst ''llm_3'' ''llm'')"

definition llm_1_tool_node :: "(pyval \<Rightarrow> string) \<Rightarrow> instances \<Rightarrow> AgentState \<Rightarrow> AgentState" where
  "llm_1_tool_node py_str inst =
     node_function py_str ''llm_1'' ''Llm_1 Tool'' ''Llm_1 tool node error''
       (inst ''llm_1'' ''tool'')"

definition llm_2_tool_node :: "(pyval \<Rightarrow> string) \<Rightarrow> instances \<Rightarrow> AgentState \<Rightarrow> AgentState" where
  "llm_2_tool_node py_str inst =
     node_function py_str ''llm_2'' ''Llm_2 Tool'' ''Llm_2 tool node error''
       (inst ''llm_2'' ''tool'')"

definition llm_3_tool_node :: "(pyval \<Rightarrow> string) \<Rightarrow> instances \<Rightarrow> AgentState \<Rightarrow> AgentState" where
  "llm_3_tool_node py_str inst =
     node_function py_str ''llm_3'' ''Llm_3 Tool'' ''Llm_3 tool node error''
       (inst ''llm_3'' ''tool'')"

text \<open>
  \<^verbatim>\<open>get_graph_nodes\<close> fills a dictionary with the LLM wrappers, overwrites the same
  three keys with the tool wrappers, and returns the entries of the configured stages.
\<close>

definition get_graph_nodes ::
  "(pyval \<Rightarrow> string) \<Rightarrow> instances \<Rightarrow> string list \<Rightarrow> (string \<times> (AgentState \<Rightarrow> AgentState)) list" where
  "get_graph_nodes py_str inst agent_stages =
     (let node_functions = [];
          node_functions = AList.update ''llm_1'' (llm_1_node py_str inst) node_functions;
          node_functions = AList.update ''llm_2'' (llm_2_node py_str inst) node_functions;
          node_functions = AList.update ''llm_3'' (llm_3_node py_str inst) node_functions;
          node_functions = AList.update ''llm_1'' (llm_1_tool_node py_str inst) node_functions;
          node_functions = AList.update ''llm_2'' (llm_2_tool_node py_str inst) node_functions;
          node_functions = AList.update ''llm_3'' (llm_3_tool_node py_str inst) node_functions
      in concat (map (\<lambda>stage. case map_of node_functions stage of
                                None \<Rightarrow> [] | Some f \<Rightarrow> [(stage, f)]) agent_stages))"


section \<open>Graph construction and routing (graph/main.py)\<close>

text \<open>
  The builders call \<^verbatim>\<open>graph.add_edge\<close> and \<^verbatim>\<open>graph.add_conditional_edges\<close>; the model
  returns the edges added, in order. A conditional edge carries its routing function
  and its map from the function's answers to vertices.
\<close>

datatype vertex = START | END | Node string

datatype edge =
    Edge vertex vertex
  | Conditional vertex "AgentState \<Rightarrow> string" "(string \<times> vertex) list"

definition get_next_stage :: "AgentState \<Rightarrow> string" where
  "get_next_stage state = ''continue''"


definition add_state_graph_edges :: "(AgentState \<Rightarrow> string) \<Rightarrow> string list \<Rightarrow> edge list" where
  "add_state_graph_edges next_stage stages =
     (if stages = [] then []
      else Edge START (Node (stages ! 0)) #
           map (\<lambda>(i, stage).
                  if i < length stages - 1
                  then Conditional (Node stage) next_stage
                         [(''continue'',
                             if i + 1 < length stages then Node (stages ! (i + 1)) else END),
                          (''end'', END)]
                  else Edge (Node stage) END)
               (enumerate 0 stages))"


section \<open>Traversals of a graph\<close>

text \<open>
  The graph is run by LangGraph. What the results below need of it is which vertices
  follow which: from a vertex the run goes along an edge that leaves it, a conditional
  edge leading where its map sends the answer of its routing function on the current
  state. A stage vertex runs its node function on the state; the value returned
  replaces every field but \<^verbatim>\<open>messages\<close>, which \<^verbatim>\<open>AgentState\<close> annotates with the reducer
  \<^verbatim>\<open>add\<close>: the returned messages are appended to the old ones. A traversal is a path
  along such steps that ends in \<open>END\<close>.
\<close>

fun targets :: "AgentState \<Rightarrow> vertex \<Rightarrow> edge \<Rightarrow> vertex list" where
  "targets s v (Edge a b) = (if a = v then [b] else [])"
| "targets s v (Conditional a route path_map) =
     (if a = v then (case map_of path_map (route s) of None \<Rightarrow> [] | Some b \<Rightarrow> [b]) else [])"

definition successors :: "edge list \<Rightarrow> AgentState \<Rightarrow> vertex \<Rightarrow> vertex list" where
  "successors es s v = concat (map (targets s v) es)"

definition merge_update :: "AgentState \<Rightarrow> AgentState \<Rightarrow> AgentState" where
  "merge_update old upd = upd\<lparr>messages := messages old @ messages upd\<rparr>"

fun exec_vertex :: "(string \<Rightarrow> AgentState \<Rightarrow> AgentState) \<Rightarrow> vertex \<Rightarrow> AgentState \<Rightarrow> AgentState" where
  "exec_vertex fn (Node n) s = merge_update s (fn n s)"
| "exec_vertex fn v s = s"

fun follows ::
  "(string \<Rightarrow> AgentState \<Rightarrow> AgentState) \<Rightarrow> edge list \<Rightarrow> AgentState \<Rightarrow> vertex \<Rightarrow> vertex list \<Rightarrow> bool" where
  "follows fn es s v [] = (v = END)"
| "follows fn es s v (w # rest) =
     (v \<noteq> END \<and> w \<in> set (successors es (exec_vertex fn v s) v)
      \<and> follows fn es (exec_vertex fn v s) w rest)"

definition traversal_from ::
  "(string \<Rightarrow> AgentState \<Rightarrow> AgentState) \<Rightarrow> edge list \<Rightarrow> vertex \<Rightarrow> AgentState \<Rightarrow> vertex list \<Rightarrow> bool" where
  "traversal_from fn es entry s path =
     (case path of [] \<Rightarrow> False | v # rest \<Rightarrow> v = entry \<and> follows fn es s v rest)"

fun final_state ::
  "(string \<Rightarrow> AgentState \<Rightarrow> AgentState) \<Rightarrow> AgentState \<Rightarrow> vertex list \<Rightarrow> AgentState" where
  "final_state fn s [] = s"
| "final_state fn s (v # rest) = final_state fn (exec_vertex fn v s) rest"

text \<open>The stages a path visits, in order.\<close>

fun visited :: "vertex list \<Rightarrow> string list" where
  "visited [] = []"
| "visited (Node n # vs) = n # visited vs"
| "visited (v # vs) = visited vs"

text \<open>
  The node function of a stage among those \<^verbatim>\<open>_build_graph\<close> adds with
  \<^verbatim>\<open>graph.add_node(stage, nodes[stage])\<close>.
\<close>

definition node_fn :: "(string \<times> (AgentState \<Rightarrow> AgentState)) list \<Rightarrow> string \<Rightarrow> AgentState \<Rightarrow> AgentState" where
  "node_fn nodes name s = (case map_of nodes name of None \<Rightarrow> s | Some f \<Rightarrow> f s)"


section \<open>Use-case executor (generators/templates/base/utils/use_case_executor.py)\<close>

text \<open>
  \<^verbatim>\<open>_validate_output\<close> and \<^verbatim>\<open>_check_behavior\<close> return the dictionary
  \<^verbatim>\<open>{'passed': ..., 'message': ...}\<close>. Both run inside \<^verbatim>\<open>try\<close> and turn every
  exception into a failed result. Python's \<^verbatim>\<open>str\<close>, which the messages and the
  textual checks apply to values, is the parameter \<open>py_str\<close>.
\<close>

record validation_result =
  passed :: bool
  message :: string

fun validate_dict_items ::
  "(pyval \<Rightarrow> string) \<Rightarrow> pyval \<Rightarrow> (string \<times> pyval) list \<Rightarrow> exn + validation_result" where
  "validate_dict_items py_str actual_output [] =
     Inr \<lparr>passed = True, message = ''Output validation passed''\<rparr>"
| "validate_dict_items py_str actual_output ((key, expected_value) # rest) =
     (case py_in (PStr key) actual_output of
        Inl e \<Rightarrow> Inl e
      | Inr present \<Rightarrow>
          if \<not> present
          then Inr \<lparr>passed = False, message = ''Missing expected key: '' @ key\<rparr>
          else (case py_getitem actual_output key of
                  Inl e \<Rightarrow> Inl e
                | Inr actual_value \<Rightarrow>
                    if \<not> py_eq actual_value expected_value
                    then Inr \<lparr>passed = False,
                              message = ''Value mismatch for key '' @ quoted key
                                @ '': expected '' @ py_str expected_value
                                @ '', got '' @ py_str actual_value\<rparr>
                    else validate_dict_items py_str actual_output rest))"

definition UseCaseExecutor_validate_output ::
  "(pyval \<Rightarrow> string) \<Rightarrow> pyval \<Rightarrow> pyval \<Rightarrow> validation_result" where
  "UseCaseExecutor_validate_output py_str actual_output expected_output =
     (case (case expected_output of
              PDict expected_items \<Rightarrow> validate_dict_items py_str actual_output expected_items
            | PStr expected_text \<Rightarrow>
                Inr (if py_str actual_output \<noteq> expected_text
                     then \<lparr>passed = False,
                           message = ''String mismatch: expected '' @ quoted expected_text
                             @ '', got '' @ quoted (py_str actual_output)\<rparr>
                     else \<lparr>passed = True, message = ''String validation passed''\<rparr>)
            | _ \<Rightarrow>
                Inr (if \<not> py_eq actual_output expected_output
                     then \<lparr>passed = False,
                           message = ''Value mismatch: expected '' @ py_str expected_output
                             @ '', got '' @ py_str actual_output\<rparr>
                     else \<lparr>passed = True, message = ''Value validation passed''\<rparr>))
      of Inl e \<Rightarrow> \<lparr>passed = False, message = ''Validation error: '' @ exn_str e\<rparr>
       | Inr r \<Rightarrow> r)"

text \<open>
  One pass of the loop over \<^verbatim>\<open>checks\<close>: \<open>Inr None\<close> when the check holds or its type
  is none of the six, \<open>Inr (Some m)\<close> when it fails with message \<open>m\<close>, \<open>Inl e\<close> when
  evaluating it raises.
\<close>

definition check_failed :: "(pyval \<Rightarrow> string) \<Rightarrow> pyval \<Rightarrow> string \<Rightarrow> exn + string option" where
  "check_failed py_str check_description what =
     Inr (Some (quoted (py_str check_description) @ '' failed: '' @ what))"

definition run_check :: "(pyval \<Rightarrow> string) \<Rightarrow> pyval \<Rightarrow> pyval \<Rightarrow> exn + string option" where
  "run_check py_str output_value chk =
     (case py_get chk ''type'' PNone of
        Inl e \<Rightarrow> Inl e
      | Inr check_type \<Rightarrow>
     (case py_get chk ''value'' PNone of
        Inl e \<Rightarrow> Inl e
      | Inr check_value \<Rightarrow>
     (case py_get chk ''description'' (PStr (py_str check_type @ '' check'')) of
        Inl e \<Rightarrow> Inl e
      | Inr check_description \<Rightarrow>
          if py_eq check_type (PStr ''contains'')
          then (case py_in check_value (PStr (py_str output_value)) of
                  Inl e \<Rightarrow> Inl e
                | Inr found \<Rightarrow>
                    if \<not> found
                    then check_failed py_str check_description
                           (''output does not contain '' @ quoted (py_str check_value))
                    else Inr None)
          else if py_eq check_type (PStr ''not_contains'')
          then (case py_in check_value (PStr (py_str output_value)) of
                  Inl e \<Rightarrow> Inl e
                | Inr found \<Rightarrow>
                    if found
                    then check_failed py_str check_description
                           (''output contains unwanted '' @ quoted (py_str check_value))
                    else Inr None)
          else if py_eq check_type (PStr ''length_greater_than'')
          then (case py_int_le (int (length (py_str output_value))) check_value of
                  Inl e \<Rightarrow> Inl e
                | Inr too_short \<Rightarrow>
                    if too_short
                    then check_failed py_str check_description
                           (''output length ''
                              @ py_str (PInt (int (length (py_str output_value))))
                              @ '' is not greater than '' @ py_str check_value)
                    else Inr None)
          else if py_eq check_type (PStr ''length_less_than'')
          then (case py_int_ge (int (length (py_str output_value))) check_value of
                  Inl e \<Rightarrow> Inl e
                | Inr too_long \<Rightarrow>
                    if too_long
                    then check_failed py_str check_description
                           (''output length ''
                              @ py_str (PInt (int (length (py_str output_value))))
                              @ '' is not less than '' @ py_str check_value)
                    else Inr None)
          else if py_eq check_type (PStr ''is_dict'')
          then (if py_type output_value \<noteq> TDict
                then check_failed py_str check_description ''output is not a dictionary''
                else Inr None)
          else if py_eq check_type (PStr ''has_key'')
          then (if py_type output_value \<noteq> TDict
                then check_failed py_str check_description
                       (''output does not have key '' @ quoted (py_str check_value))
                else (case py_in check_value output_value of
                        Inl e \<Rightarrow> Inl e
                      | Inr found \<Rightarrow>
                          if \<not> found
                          then check_failed py_str check_description
                                 (''output does not have key '' @ quoted (py_str check_value))
                          else Inr None))
          else Inr None)))"

fun run_checks :: "(pyval \<Rightarrow> string) \<Rightarrow> pyval \<Rightarrow> pyval list \<Rightarrow> exn + validation_result" where
  "run_checks py_str output_value [] =
     Inr \<lparr>passed = True, message = ''All behavior checks passed''\<rparr>"
| "run_checks py_str output_value (chk # rest) =
     (case run_check py_str output_value chk of
        Inl e \<Rightarrow> Inl e
      | Inr (Some m) \<Rightarrow> Inr \<lparr>passed = False, message = m\<rparr>
      | Inr None \<Rightarrow> run_checks py_str output_value rest)"

definition UseCaseExecutor_check_behavior ::
  "(pyval \<Rightarrow> string) \<Rightarrow> pyval \<Rightarrow> pyval \<Rightarrow> validation_result" where
  "UseCaseExecutor_check_behavior py_str output_value expected_behavior =
     (case (case py_get expected_behavior ''checks'' (PList []) of
              Inl e \<Rightarrow> Inl e
            | Inr checks \<Rightarrow>
                (case py_iter checks of
                   Inl e \<Rightarrow> Inl e
                 | Inr check_list \<Rightarrow> run_checks py_str output_value check_list))
      of Inl e \<Rightarrow> \<lparr>passed = False, message = ''Behavior check error: '' @ exn_str e\<rparr>
       | Inr r \<Rightarrow> r)"

text \<open>
  \<^verbatim>\<open>execute_use_case\<close>, with the agent loaded. \<open>agent_execute\<close> is the outcome of
  \<^verbatim>\<open>await self.agent.execute(input_data)\<close>; the two readings of the clock give
  \<open>execution_time\<close> and \<open>end_time\<close>. The result dictionary has the keys
  \<^verbatim>\<open>validation\<close>, \<^verbatim>\<open>behavior_check\<close>, \<^verbatim>\<open>error\<close> and \<^verbatim>\<open>error_type\<close> only when
  they are set: an absent key is \<open>None\<close>.
\<close>

record execution_result =
  uc_name :: pyval
  uc_description :: pyval
  uc_input :: pyval
  uc_output :: pyval
  execution_time_seconds :: rat
  timestamp :: string
  status :: string
  validation :: "validation_result option"
  behavior_check :: "validation_result option"
  uc_error :: "string option"
  uc_error_type :: "string option"

definition execute_use_case ::
  "(pyval \<Rightarrow> string) \<Rightarrow> (pyval \<Rightarrow> exn + pyval) \<Rightarrow> rat \<Rightarrow> string \<Rightarrow> (string \<times> pyval) list
     \<Rightarrow> execution_result" where
  "execute_use_case py_str agent_execute execution_time end_time use_case =
     (let name = dict_get use_case ''name'' (PStr ''Unnamed Use Case'');
          description = dict_get use_case ''description'' (PStr []);
          input_data = dict_get use_case ''input'' (PDict []);
          expected_output = dict_get use_case ''expected_output'' PNone;
          expected_behavior = dict_get use_case ''expected_behavior'' PNone
      in case agent_execute input_data of
           Inl e \<Rightarrow>
             \<lparr>uc_name = dict_get use_case ''name'' (PStr ''Unnamed Use Case''),
              uc_description = dict_get use_case ''description'' (PStr []),
              uc_input = dict_get use_case ''input'' (PDict []),
              uc_output = PNone,
              execution_time_seconds = execution_time,
              timestamp = end_time,
              status = ''error'',
              validation = None,
              behavior_check = None,
              uc_error = Some (exn_str e),
              uc_error_type = Some (exn_class e)\<rparr>
         | Inr result \<Rightarrow>
             (let execution_result =
                    \<lparr>uc_name = name,
                     uc_description = description,
                     uc_input = input_data,
                     uc_output = result,
                     execution_time_seconds = execution_time,
                     timestamp = end_time,
                     status = ''success'',
                     validation = None,
                     behavior_check = None,
                     uc_error = None,
                     uc_error_type = None\<rparr>;
                  execution_result =
                    (if expected_output \<noteq> PNone
                     then (let validation_result =
                                 UseCaseExecutor_validate_output py_str result expected_output;
                               execution_result =
                                 execution_result\<lparr>validation := Some validation_result\<rparr>
                           in if \<not> passed validation_result
                              then execution_result\<lparr>status := ''validation_failed''\<rparr>
                              else execution_result)
                     else execution_result);
                  execution_result =
                    (if expected_behavior \<noteq> PNone
                     then (let behavior_result =
                                 UseCaseExecutor_check_behavior py_str result expected_behavior;
                               execution_result =
                                 execution_result\<lparr>behavior_check := Some behavior_result\<rparr>
                           in if \<not> passed behavior_result
                              then execution_result\<lparr>status := ''behavior_failed''\<rparr>
                              else execution_result)
                     else execution_result)
              in execution_result))"

text \<open>
  \<^verbatim>\<open>generate_report\<close>. The two divisions are written as Python's \<^verbatim>\<open>/\<close>, which raises
  on a zero divisor. Times and rates are rationals; \<^verbatim>\<open>round(x, 2)\<close> is the parameter
  \<open>round2\<close>, and \<open>now\<close> is the clock's reading for \<^verbatim>\<open>generated_at\<close>.
\<close>

definition py_truediv :: "rat \<Rightarrow> rat \<Rightarrow> exn + rat" where
  "py_truediv a b = (if b = 0 then Inl ZeroDivisionError else Inr (a / b))"

record report_summary =
  total_cases :: nat
  successful :: nat
  validation_failed :: nat
  behavior_failed :: nat
  errors :: nat
  success_rate :: rat
  average_execution_time_seconds :: rat

datatype report =
    NoResults string
  | Report report_summary "execution_result list" string

definition generate_report ::
  "(rat \<Rightarrow> rat) \<Rightarrow> string \<Rightarrow> execution_result list \<Rightarrow> execution_result list option
     \<Rightarrow> exn + report" where
  "generate_report round2 now self_results results_arg =
     (let rs = (case results_arg of None \<Rightarrow> self_results | Some given \<Rightarrow> given)
      in if rs = [] then Inr (NoResults ''No results to report'')
         else
           (let total = length rs;
                successful_cases = length (filter (\<lambda>r. status r = ''success'') rs);
                validation_failed_cases =
                  length (filter (\<lambda>r. status r = ''validation_failed'') rs);
                behavior_failed_cases =
                  length (filter (\<lambda>r. status r = ''behavior_failed'') rs);
                error_cases = length (filter (\<lambda>r. status r = ''error'') rs)
            in case py_truediv (sum_list (map execution_time_seconds rs)) (of_nat total) of
                 Inl e \<Rightarrow> Inl e
               | Inr avg_execution_time \<Rightarrow>
                   (case py_truediv (of_nat successful_cases) (of_nat total) of
                      Inl e \<Rightarrow> Inl e
                    | Inr ratio \<Rightarrow>
                        Inr (Report
                               \<lparr>total_cases = total,
                                successful = successful_cases,
                                validation_failed = validation_failed_cases,
                                behavior_failed = behavior_failed_cases,
                                errors = error_cases,
                                success_rate = ratio * 100,
                                average_execution_time_seconds = round2 avg_execution_time\<rparr>
                               rs now))))"


section \<open>Sample inputs\<close>

text \<open>
  Concrete inputs at which the results are evaluated: a rendering of values for
  \<open>py_str\<close> (exact on strings), an LLM node and a tool node whose logic and a graph
  whose invocation time out at the first attempt, fail at the second and return at the
  third, a node whose logic raises a validation error, node instances of which the first stage's
  always raises and node instances that all raise, a use case expecting
  \<^verbatim>\<open>{"status": "x"}\<close>, and a result record.
\<close>

definition plain_str :: "pyval \<Rightarrow> string" where
  "plain_str v = (case v of PStr s \<Rightarrow> s | _ \<Rightarrow> ''<value>'')"

definition flaky_logic :: "nat \<Rightarrow> pyval \<Rightarrow> exn + pyval" where
  "flaky_logic a d =
     (if a = 0 then Inl TimeoutError
      else if a = 1 then Inl (OtherError ''connection reset'')
      else Inr (PStr ''ok''))"

definition flaky_node :: node where
  "flaky_node = \<lparr>node_name = ''llm_3'', class_name = ''Llm_3LLMNode'',
                  execute_logic = flaky_logic\<rparr>"

definition flaky_tool :: node where
  "flaky_tool = \<lparr>node_name = ''llm_2'', class_name = ''Llm_2ToolNode'',
                  execute_logic = flaky_logic\<rparr>"

definition rejecting_node :: node where
  "rejecting_node = \<lparr>node_name = ''llm_3'', class_name = ''Llm_3LLMNode'',
                      execute_logic = (\<lambda>a d. Inl (ValueError ''bad prompt''))\<rparr>"

definition flaky_ainvoke :: "nat \<Rightarrow> AgentState \<Rightarrow> exn + pyval" where
  "flaky_ainvoke a s =
     (if a = 0 then Inl TimeoutError
      else if a = 1 then Inl (OtherError ''connection reset'')
      else Inr (PDict [(''results'', PDict (results s)), (''messages'', PList [])]))"

definition failing_first :: instances where
  "failing_first stage kind =
     (if stage = ''llm_1'' then Inr (\<lambda>d. Inl (OtherError ''model unavailable''))
      else Inr (\<lambda>d. Inr (PStr (''done '' @ stage))))"

definition failing_all :: instances where
  "failing_all stage kind = Inr (\<lambda>d. Inl (OtherError ''model unavailable''))"

definition sample_state :: AgentState where
  "sample_state = initial_state plain_str stage_order (PStr ''hello'') 0"

definition status_use_case :: "(string \<times> pyval) list" where
  "status_use_case =
     [(''name'', PStr ''status check''),
      (''input'', PStr ''ping''),
      (''expected_output'', PDict [(''status'', PStr ''x'')])]"

definition status_use_case_with_behavior :: "(string \<times> pyval) list" where
  "status_use_case_with_behavior =
     status_use_case
     @ [(''expected_behavior'',
         PDict [(''checks'',
                 PList [PDict [(''type'', PStr ''has_key''), (''value'', PStr ''missing'')]])])]"

definition sample_result :: "string \<Rightarrow> rat \<Rightarrow> execution_result" where
  "sample_result st t =
     \<lparr>uc_name = PStr ''case'', uc_description = PStr [], uc_input = PStr ''ping'',
      uc_output = PNone, execution_time_seconds = t, timestamp = [], status = st,
      validation = None, behavior_check = None, uc_error = None, uc_error_type = None\<rparr>"


section \<open>Thread identifiers: results\<close>

text \<open>
  C2, as stated, fails at two inputs. It asks \<^verbatim>\<open>thread_id(user_id, session_id)\<close> to be
  \<^verbatim>\<open>"user_<user_id>_session_<session_id>"\<close> for every session id, but the guard
  \<^verbatim>\<open>if session_id:\<close> skips the suffix for the empty string: for user \<^verbatim>\<open>alice\<close> and
  session \<^verbatim>\<open>""\<close> the id is \<^verbatim>\<open>user_alice\<close>, not \<^verbatim>\<open>user_alice_session_\<close>. And its
  example is not what the suffix \<^verbatim>\<open>_v<version>\<close> gives: for version \<^verbatim>\<open>v2\<close> the
  suffix is \<^verbatim>\<open>_vv2\<close>, so the versioned id of (alice, v2, s1) is
  \<^verbatim>\<open>user_alice_session_s1_vv2\<close>, not \<^verbatim>\<open>user_alice_session_s1_v2\<close>.
\<close>

theorem C2_thread_ids_counterexample:
  "get_versioned_thread_config ''alice'' ''v2'' (Some ''s1'')
     \<noteq> [(''configurable'', [(''thread_id'', ''user_alice_session_s1_v2'')])]
   \<and> get_thread_config ''alice'' (Some [])
     \<noteq> [(''configurable'', [(''thread_id'', ''user_'' @ ''alice'' @ ''_session_'' @ [])])]"
  by (simp add: get_versioned_thread_config_def get_thread_config_def truthy_str_def Let_def)

text \<open>
  C2 (amended): without a session id, and with an empty one, the thread id is
  \<^verbatim>\<open>user_<user_id>\<close>; with a non-empty session id it is
  \<^verbatim>\<open>user_<user_id>_session_<session_id>\<close>; the versioned id is that base id followed by
  \<^verbatim>\<open>_v<version>\<close>, so the versioned id of (alice, v2, s1) is
  \<^verbatim>\<open>user_alice_session_s1_vv2\<close> and that of (alice, 2, s1) is
  \<^verbatim>\<open>user_alice_session_s1_v2\<close>; every result is the id wrapped as
  \<^verbatim>\<open>{"configurable": {"thread_id": ...}}\<close>.
\<close>

theorem C2_thread_ids:
  assumes "session_id \<noteq> []"
  shows "get_thread_config user_id None
           = [(''configurable'', [(''thread_id'', ''user_'' @ user_id)])]
    \<and> get_thread_config user_id (Some [])
           = [(''configurable'', [(''thread_id'', ''user_'' @ user_id)])]
    \<and> get_thread_config user_id (Some session_id)
           = [(''configurable'',
               [(''thread_id'', ''user_'' @ user_id @ ''_session_'' @ session_id)])]
    \<and> (\<exists>base. thread_id_of (get_thread_config user_id opt_session) = Some base
           \<and> get_versioned_thread_config user_id version opt_session
               = [(''configurable'', [(''thread_id'', base @ ''_v'' @ version)])])
    \<and> get_versioned_thread_config ''alice'' ''v2'' (Some ''s1'')
           = [(''configurable'', [(''thread_id'', ''user_alice_session_s1_vv2'')])]
    \<and> get_versioned_thread_config ''alice'' ''2'' (Some ''s1'')
           = [(''configurable'', [(''thread_id'', ''user_alice_session_s1_v2'')])]"
proof -
  have versioned: "\<exists>base. thread_id_of (get_thread_config user_id opt_session) = Some base
           \<and> get_versioned_thread_config user_id version opt_session
               = [(''configurable'', [(''thread_id'', base @ ''_v'' @ version)])]"
    by (cases opt_session)
       (simp_all add: get_thread_config_def get_versioned_thread_config_def
          truthy_str_def thread_id_of_def Let_def)
  have plain: "get_thread_config user_id None
           = [(''configurable'', [(''thread_id'', ''user_'' @ user_id)])]
    \<and> get_thread_config user_id (Some [])
           = [(''configurable'', [(''thread_id'', ''user_'' @ user_id)])]
    \<and> get_thread_config user_id (Some session_id)
           = [(''configurable'',
               [(''thread_id'', ''user_'' @ user_id @ ''_session_'' @ session_id)])]"
    using assms by (simp add: get_thread_config_def truthy_str_def Let_def)
  have examples: "get_versioned_thread_config ''alice'' ''v2'' (Some ''s1'')
           = [(''configurable'', [(''thread_id'', ''user_alice_session_s1_vv2'')])]
    \<and> get_versioned_thread_config ''alice'' ''2'' (Some ''s1'')
           = [(''configurable'', [(''thread_id'', ''user_alice_session_s1_v2'')])]"
    by (simp add: get_versioned_thread_config_def truthy_str_def Let_def)
  from plain versioned examples show ?thesis by blast
qed

theorem C2_thread_ids_witness:
  "''s1'' \<noteq> []
   \<and> get_thread_config ''alice'' (Some ''s1'')
       = [(''configurable'', [(''thread_id'', ''user_alice_session_s1'')])]"
  using C2_thread_ids [of "''s1''" "''alice''"] by simp


section \<open>State operations: results\<close>

text \<open>
  C4: \<^verbatim>\<open>set_stage_result(state, stage, value)\<close> returns a state whose results map
  \<^verbatim>\<open>stage\<close> to \<^verbatim>\<open>value\<close> (every other key keeps its value) while input, messages,
  context, current stage, error and metadata are unchanged; \<^verbatim>\<open>add_message\<close> returns
  the state with the message appended at the end of the old sequence and all other
  fields unchanged; \<^verbatim>\<open>set_error\<close> and \<^verbatim>\<open>clear_error\<close> change only the error field.
  The source does not test whether the stage is declared: the property holds for every
  stage name, so in particular under the claim's precondition.
\<close>

theorem C4_state_operations_frame:
  "set_stage_result state stage v = state\<lparr>results := AList.update stage v (results state)\<rparr>
   \<and> map_of (results (set_stage_result state stage v)) = (map_of (results state))(stage \<mapsto> v)
   \<and> input (set_stage_result state stage v) = input state
   \<and> messages (set_stage_result state stage v) = messages state
   \<and> context_data (set_stage_result state stage v) = context_data state
   \<and> current_stage (set_stage_result state stage v) = current_stage state
   \<and> error (set_stage_result state stage v) = error state
   \<and> metadata (set_stage_result state stage v) = metadata state
   \<and> add_message state msg = state\<lparr>messages := messages state @ [msg]\<rparr>
   \<and> set_error state err = state\<lparr>error := Some err\<rparr>
   \<and> results (set_error state err) = results state
   \<and> clear_error state = state\<lparr>error := None\<rparr>
   \<and> results (clear_error state) = results state"
  by (simp add: set_stage_result_def add_message_def set_error_def clear_error_def
        update_state_def no_updates_def get_or_def Let_def update_conv')


section \<open>Graph-level input validation: results\<close>

text \<open>
  C9: every input that is not \<^verbatim>\<open>None\<close> and is neither a string, a dictionary nor a
  list (an integer, a float, a boolean) is accepted by \<^verbatim>\<open>_validate_graph_input\<close>: no
  shape or size bound applies outside the three listed types.
\<close>

theorem C9_other_types_accepted:
  assumes "py_type v \<noteq> NoneType" and "py_type v \<noteq> TStr"
    and "py_type v \<noteq> TDict" and "py_type v \<noteq> TList"
  shows "validate_graph_input v"
  using assms by (cases v) (simp_all add: validate_graph_input_def)

theorem C9_other_types_accepted_witness:
  "py_type (PInt 5) \<noteq> NoneType \<and> py_type (PInt 5) \<noteq> TStr
   \<and> py_type (PInt 5) \<noteq> TDict \<and> py_type (PInt 5) \<noteq> TList
   \<and> validate_graph_input (PInt 5)"
  using C9_other_types_accepted [of "PInt 5"] by simp


section \<open>Use-case validation: results\<close>

lemma validate_dict_items_passed:
  "(case validate_dict_items py_str actual_output expected_items of
      Inl e \<Rightarrow> False | Inr r \<Rightarrow> passed r)
   \<longleftrightarrow> list_all (\<lambda>(key, expected_value).
          \<exists>d v. actual_output = PDict d \<and> map_of d key = Some v \<and> py_eq v expected_value)
        expected_items"
proof (induction expected_items)
  case Nil
  then show ?case by simp
next
  case (Cons kv rest)
  obtain key expected_value where kv: "kv = (key, expected_value)" by (cases kv)
  show ?case
  proof (cases actual_output)
    case (PDict d)
    show ?thesis
    proof (cases "map_of d key")
      case None
      then have "key \<notin> fst ` set d" by (simp add: map_of_eq_None_iff)
      with None PDict kv show ?thesis by simp
    next
      case (Some v)
      then have "key \<in> fst ` set d" by (metis map_of_eq_None_iff option.distinct(1))
      with Some PDict kv Cons show ?thesis by simp
    qed
  qed (simp_all add: kv split: sum.splits)
qed

lemma validate_output_dict_passed:
  "passed (UseCaseExecutor_validate_output py_str actual_output (PDict expected_items))
   \<longleftrightarrow> (\<forall>(key, expected_value) \<in> set expected_items.
          \<exists>d v. actual_output = PDict d \<and> map_of d key = Some v \<and> py_eq v expected_value)"
  using validate_dict_items_passed [of py_str actual_output expected_items]
  by (simp add: UseCaseExecutor_validate_output_def list_all_iff split: sum.splits)

lemma sublist_quoted: "sublist key (pre @ quoted key @ post)"
  unfolding quoted_def by (metis append.assoc sublist_appendI)

text \<open>
  C8, as stated, gives the status \<^verbatim>\<open>validation_failed\<close> to every use case that expects
  \<^verbatim>\<open>{"status": "x"}\<close> and gets \<^verbatim>\<open>"status": "y"\<close>. \<^verbatim>\<open>execute_use_case\<close> checks the
  expected behaviour after the expected output, and a failed behaviour check sets the
  status again: with the check \<^verbatim>\<open>has_key "missing"\<close> added, the same use case ends
  with the status \<^verbatim>\<open>behavior_failed\<close>.
\<close>

theorem C8_status_counterexample:
  "status (execute_use_case plain_str (\<lambda>i. Inr (PDict [(''status'', PStr ''y'')])) 0 []
             status_use_case_with_behavior) = ''behavior_failed''
   \<and> status (execute_use_case plain_str (\<lambda>i. Inr (PDict [(''status'', PStr ''y'')])) 0 []
             status_use_case_with_behavior) \<noteq> ''validation_failed''"
  by (simp add: execute_use_case_def status_use_case_with_behavior_def status_use_case_def
        dict_get_def UseCaseExecutor_validate_output_def UseCaseExecutor_check_behavior_def
        run_check_def check_failed_def plain_str_def quoted_def Let_def)

text \<open>
  C8 (amended): for every use case whose expected output is the dictionary
  \<^verbatim>\<open>{"status": x}\<close>, whose agent output is a dictionary mapping \<^verbatim>\<open>"status"\<close> to a value
  different from \<^verbatim>\<open>x\<close>, and whose expected behaviour is absent or passes its check,
  the execution result has the status \<^verbatim>\<open>validation_failed\<close> and its validation
  message names the key \<^verbatim>\<open>status\<close>; validation against a dictionary passes only when
  every expected key is present in the actual output with an equal value. The last
  part is proved with its converse: the validation passes if and only if, for every
  expected key, the actual output is a dictionary that maps the key to a value equal
  to the expected one. With no expected key the condition is empty and every output
  passes.
\<close>

theorem C8_mismatch_is_validation_failed:
  "(map_of use_case ''expected_output'' = Some (PDict [(''status'', expected_value)])
      \<and> agent_execute (dict_get use_case ''input'' (PDict [])) = Inr (PDict actual)
      \<and> map_of actual ''status'' = Some actual_value
      \<and> \<not> py_eq actual_value expected_value
      \<and> (dict_get use_case ''expected_behavior'' PNone = PNone
           \<or> passed (UseCaseExecutor_check_behavior py_str (PDict actual)
                        (dict_get use_case ''expected_behavior'' PNone)))
    \<longrightarrow> status (execute_use_case py_str agent_execute execution_time end_time use_case)
          = ''validation_failed''
        \<and> validation (execute_use_case py_str agent_execute execution_time end_time use_case)
          = Some \<lparr>passed = False,
                  message = ''Value mismatch for key '' @ quoted ''status''
                    @ '': expected '' @ py_str expected_value
                    @ '', got '' @ py_str actual_value\<rparr>
        \<and> sublist ''status''
            (''Value mismatch for key '' @ quoted ''status''
               @ '': expected '' @ py_str expected_value @ '', got '' @ py_str actual_value))
   \<and> (passed (UseCaseExecutor_validate_output py_str actual_output (PDict expected_items))
        \<longleftrightarrow> (\<forall>(key, expected) \<in> set expected_items.
               \<exists>d v. actual_output = PDict d \<and> map_of d key = Some v \<and> py_eq v expected))"
proof -
  have names: "sublist ''status''
            (''Value mismatch for key '' @ quoted ''status''
               @ '': expected '' @ py_str expected_value @ '', got '' @ py_str actual_value)"
    by (rule sublist_quoted)
  have first: "map_of use_case ''expected_output'' = Some (PDict [(''status'', expected_value)])
      \<and> agent_execute (dict_get use_case ''input'' (PDict [])) = Inr (PDict actual)
      \<and> map_of actual ''status'' = Some actual_value
      \<and> \<not> py_eq actual_value expected_value
      \<and> (dict_get use_case ''expected_behavior'' PNone = PNone
           \<or> passed (UseCaseExecutor_check_behavior py_str (PDict actual)
                        (dict_get use_case ''expected_behavior'' PNone)))
    \<longrightarrow> status (execute_use_case py_str agent_execute execution_time end_time use_case)
          = ''validation_failed''
        \<and> validation (execute_use_case py_str agent_execute execution_time end_time use_case)
          = Some \<lparr>passed = False,
                  message = ''Value mismatch for key '' @ quoted ''status''
                    @ '': expected '' @ py_str expected_value
                    @ '', got '' @ py_str actual_value\<rparr>"
  proof (intro impI, elim conjE)
    assume eo: "map_of use_case ''expected_output'' = Some (PDict [(''status'', expected_value)])"
      and ag: "agent_execute (dict_get use_case ''input'' (PDict [])) = Inr (PDict actual)"
      and st: "map_of actual ''status'' = Some actual_value"
      and ne: "\<not> py_eq actual_value expected_value"
      and bh: "dict_get use_case ''expected_behavior'' PNone = PNone
           \<or> passed (UseCaseExecutor_check_behavior py_str (PDict actual)
                        (dict_get use_case ''expected_behavior'' PNone))"
    have key: "''status'' \<in> fst ` set actual"
      using st by (metis map_of_eq_None_iff option.distinct(1))
    have v: "UseCaseExecutor_validate_output py_str (PDict actual)
               (PDict [(''status'', expected_value)])
             = \<lparr>passed = False,
                  message = ''Value mismatch for key '' @ quoted ''status''
                    @ '': expected '' @ py_str expected_value
                    @ '', got '' @ py_str actual_value\<rparr>"
      using key st ne by (simp add: UseCaseExecutor_validate_output_def)
    have eo': "dict_get use_case ''expected_output'' PNone = PDict [(''status'', expected_value)]"
      using eo by (simp add: dict_get_def)
    show "status (execute_use_case py_str agent_execute execution_time end_time use_case)
          = ''validation_failed''
        \<and> validation (execute_use_case py_str agent_execute execution_time end_time use_case)
          = Some \<lparr>passed = False,
                  message = ''Value mismatch for key '' @ quoted ''status''
                    @ '': expected '' @ py_str expected_value
                    @ '', got '' @ py_str actual_value\<rparr>"
      using bh
      by (auto simp: execute_use_case_def ag eo' v Let_def)
  qed
  from first names validate_output_dict_passed [of py_str actual_output expected_items]
  show ?thesis by blast
qed

theorem C8_mismatch_is_validation_failed_witness:
  "map_of status_use_case ''expected_output'' = Some (PDict [(''status'', PStr ''x'')])
   \<and> map_of [(''status'', PStr ''y'')] ''status'' = Some (PStr ''y'')
   \<and> \<not> py_eq (PStr ''y'') (PStr ''x'')
   \<and> dict_get status_use_case ''expected_behavior'' PNone = PNone
   \<and> status (execute_use_case plain_str (\<lambda>i. Inr (PDict [(''status'', PStr ''y'')])) 0 []
               status_use_case) = ''validation_failed''
   \<and> validation (execute_use_case plain_str (\<lambda>i. Inr (PDict [(''status'', PStr ''y'')])) 0 []
               status_use_case)
       = Some \<lparr>passed = False,
               message = ''Value mismatch for key '' @ quoted ''status'' @ '': expected x, got y''\<rparr>
   \<and> passed (UseCaseExecutor_validate_output plain_str (PDict [(''status'', PStr ''x'')])
               (PDict [(''status'', PStr ''x'')]))"
proof -
  have h: "map_of status_use_case ''expected_output'' = Some (PDict [(''status'', PStr ''x'')])
   \<and> map_of [(''status'', PStr ''y'')] ''status'' = Some (PStr ''y'')
   \<and> \<not> py_eq (PStr ''y'') (PStr ''x'')
   \<and> dict_get status_use_case ''expected_behavior'' PNone = PNone"
    by (simp add: status_use_case_def dict_get_def)
  show ?thesis
    using h C8_mismatch_is_validation_failed [of status_use_case "PStr ''x''"
        "\<lambda>i. Inr (PDict [(''status'', PStr ''y'')])" "[(''status'', PStr ''y'')]" "PStr ''y''"
        plain_str 0 "[]" "PDict [(''status'', PStr ''x'')]" "[(''status'', PStr ''x'')]"]
    by (simp add: plain_str_def)
qed


section \<open>Use-case report: results\<close>

text \<open>
  C10: for an empty list of results \<^verbatim>\<open>generate_report\<close> returns
  \<^verbatim>\<open>{"message": "No results to report"}\<close>; it never raises \<^verbatim>\<open>ZeroDivisionError\<close>, and
  whenever it returns a summary the list is not empty, \<^verbatim>\<open>total_cases\<close> is its length,
  at least 1, and the success rate and the average time are the quotients by it.
\<close>

theorem C10_report_never_divides_by_zero:
  "generate_report round2 now self_results (Some []) = Inr (NoResults ''No results to report'')
   \<and> generate_report round2 now [] None = Inr (NoResults ''No results to report'')
   \<and> generate_report round2 now self_results results_arg \<noteq> Inl ZeroDivisionError
   \<and> (\<exists>rep. generate_report round2 now self_results results_arg = Inr rep)
   \<and> (generate_report round2 now self_results results_arg = Inr (Report summ rs generated_at)
        \<longrightarrow> rs \<noteq> [] \<and> 1 \<le> total_cases summ \<and> total_cases summ = length rs
            \<and> rs = (case results_arg of None \<Rightarrow> self_results | Some given \<Rightarrow> given)
            \<and> success_rate summ
                = of_nat (successful summ) / of_nat (total_cases summ) * 100
            \<and> average_execution_time_seconds summ
                = round2 (sum_list (map execution_time_seconds rs) / of_nat (total_cases summ)))"
proof -
  let ?rs = "case results_arg of None \<Rightarrow> self_results | Some given \<Rightarrow> given"
  have empty: "generate_report round2 now self_results (Some [])
                 = Inr (NoResults ''No results to report'')
   \<and> generate_report round2 now [] None = Inr (NoResults ''No results to report'')"
    by (simp add: generate_report_def)
  have div: "?rs \<noteq> [] \<Longrightarrow> py_truediv a (of_nat (length ?rs)) = Inr (a / of_nat (length ?rs))"
    for a
    by (simp add: py_truediv_def)
  have total: "\<exists>rep. generate_report round2 now self_results results_arg = Inr rep"
  proof (cases "?rs = []")
    case True
    then show ?thesis by (simp add: generate_report_def)
  next
    case False
    then show ?thesis using div [OF False] by (simp add: generate_report_def Let_def)
  qed
  then have nz: "generate_report round2 now self_results results_arg \<noteq> Inl ZeroDivisionError"
    by auto
  have summary: "generate_report round2 now self_results results_arg
                   = Inr (Report summ rs generated_at)
        \<longrightarrow> rs \<noteq> [] \<and> 1 \<le> total_cases summ \<and> total_cases summ = length rs
            \<and> rs = ?rs
            \<and> success_rate summ
                = of_nat (successful summ) / of_nat (total_cases summ) * 100
            \<and> average_execution_time_seconds summ
                = round2 (sum_list (map execution_time_seconds rs) / of_nat (total_cases summ))"
  proof (cases "?rs = []")
    case True
    then show ?thesis by (simp add: generate_report_def)
  next
    case False
    then have "1 \<le> length ?rs" by (cases ?rs) simp_all
    then show ?thesis using False div [OF False]
      by (auto simp: generate_report_def Let_def)
  qed
  from empty total nz summary show ?thesis by blast
qed

theorem C10_report_never_divides_by_zero_witness:
  "generate_report (\<lambda>x. x) ''now'' []
       (Some [sample_result ''success'' 1, sample_result ''error'' 2])
     = Inr (Report \<lparr>total_cases = 2, successful = 1, validation_failed = 0, behavior_failed = 0,
                     errors = 1, success_rate = 50, average_execution_time_seconds = 3 / 2\<rparr>
              [sample_result ''success'' 1, sample_result ''error'' 2] ''now'')
   \<and> (1::nat) \<le> total_cases
         \<lparr>total_cases = 2, successful = 1, validation_failed = 0, behavior_failed = 0,
          errors = 1, success_rate = 50, average_execution_time_seconds = 3 / 2\<rparr>"
proof -
  have ev: "generate_report (\<lambda>x. x) ''now'' []
       (Some [sample_result ''success'' 1, sample_result ''error'' 2])
     = Inr (Report \<lparr>total_cases = 2, successful = 1, validation_failed = 0, behavior_failed = 0,
                     errors = 1, success_rate = 50, average_execution_time_seconds = 3 / 2\<rparr>
              [sample_result ''success'' 1, sample_result ''error'' 2] ''now'')"
    by (simp add: generate_report_def py_truediv_def sample_result_def Let_def)
  from C10_report_never_divides_by_zero [of "\<lambda>x. x" "''now''" "[]"
      "Some [sample_result ''success'' 1, sample_result ''error'' 2]"
      "\<lparr>total_cases = 2, successful = 1, validation_failed = 0, behavior_failed = 0,
                     errors = 1, success_rate = 50, average_execution_time_seconds = 3 / 2\<rparr>"
      "[sample_result ''success'' 1, sample_result ''error'' 2]" "''now''"] ev
  show ?thesis by blast
qed


section \<open>Retries: results\<close>

lemma upt_max_retries: "[0..<max_retries] = [0, 1, 2]"
  by (simp add: max_retries_def upt_rec)

lemma upt_from: "a < max_retries \<Longrightarrow> [a..<max_retries] = a # [Suc a..<max_retries]"
  by (simp add: upt_conv_Cons)

lemma finished_simps [simp]:
  "attempts (finished r) = 1" "delays (finished r) = []" "outcome (finished r) = r"
  by (simp_all add: finished_def)

lemma after_sleep_simps [simp]:
  "attempts (after_sleep d r) = Suc (attempts r)" "delays (after_sleep d r) = d # delays r"
  "outcome (after_sleep d r) = outcome r"
  by (simp_all add: after_sleep_def)

lemma loop_exhausted_simps [simp]:
  "attempts (loop_exhausted e) = 0" "delays (loop_exhausted e) = []"
  "outcome (loop_exhausted e) = Inl e"
  by (simp_all add: loop_exhausted_def)

lemma llm_attempts_le: "attempts (llm_run_loop nd d xs) \<le> length xs"
  by (induction xs) (auto split: sum.splits)

lemma tool_attempts_le: "attempts (tool_run_loop nd d xs) \<le> length xs"
  by (induction xs) (auto split: sum.splits)

lemma execute_attempts_le: "attempts (execute_loop ps ai st d xs) \<le> length xs"
  by (induction xs) (auto split: sum.splits)

lemma node_attempt_raises: "node_attempt nd d a \<noteq> Inr r"
  by (simp add: node_attempt_def split: sum.splits)

lemma llm_run_loop_raises: "outcome (llm_run_loop nd d xs) \<noteq> Inr r"
  by (induction xs) (auto simp: node_attempt_raises split: sum.splits)

lemma tool_run_loop_raises: "outcome (tool_run_loop nd d xs) \<noteq> Inr r"
  by (induction xs) (auto simp: node_attempt_raises split: sum.splits)

lemma two_pow_small: "a < 2 \<Longrightarrow> (2::rat) ^ a = of_nat a + 1"
proof -
  assume "a < 2"
  then have "a = 0 \<or> a = 1" by auto
  then show ?thesis by auto
qed

text \<open>
  C3, as stated, makes an empty string fail the node's input validation and the run
  fail at once. \<^verbatim>\<open>BaseNode.validate_input\<close> is \<^verbatim>\<open>data is not None\<close>: the empty string
  passes it, and the run goes on to the compute function. On a node whose logic times
  out, then fails, then returns, the empty string runs three attempts with two backoff
  delays, and the error that ends the run is not a validation error.
\<close>

theorem C3_empty_string_counterexample:
  "validate_input (PStr [])
   \<and> Llm_3LLMNode_run flaky_node (PStr [])
       = \<lparr>outcome = Inl (NodeExecutionError
            (''Failed to execute llm_3 after 3 attempts: '' @ quoted ''Llm_3LLMNode''
               @ '' object has no attribute '' @ quoted ''validate_output'')),
          attempts = 3, delays = [2, 4]\<rparr>"
  unfolding Llm_3LLMNode_run_def upt_max_retries
  by (simp add: validate_input_def node_attempt_def flaky_node_def flaky_logic_def
        finished_def after_sleep_def max_retries_def llm_retry_delay_def)

text \<open>
  C3 (amended): for every stage node, input validation requires the input to be
  non-null and nothing more, so an empty string, an empty list and an empty dictionary
  pass it; a null input fails it, and the node's run then fails on its first attempt as
  a terminal validation error, with no further attempt and no backoff delay, whatever
  the compute function does. The requirement that a string, a list or a dictionary be
  non-empty belongs to the graph-level validation: there an empty string is rejected,
  and \<^verbatim>\<open>execute\<close> fails on its first attempt with no retry and no backoff delay.
\<close>

theorem C3_input_validation:
  "validate_input d = (d \<noteq> PNone)
   \<and> validate_input (PStr []) \<and> validate_input (PList []) \<and> validate_input (PDict [])
   \<and> Llm_3LLMNode_run nd PNone
       = \<lparr>outcome = Inl (NodeExecutionError
            (''Validation failed in '' @ node_name nd @ '': Invalid input data for ''
               @ node_name nd)),
          attempts = 1, delays = []\<rparr>
   \<and> Llm_2ToolNode_run nd PNone
       = \<lparr>outcome = Inl (NodeExecutionError
            (''Validation failed in '' @ node_name nd @ '': Invalid input data for ''
               @ node_name nd)),
          attempts = 1, delays = []\<rparr>
   \<and> \<not> validate_graph_input PNone \<and> \<not> validate_graph_input (PStr [])
   \<and> \<not> validate_graph_input (PList []) \<and> \<not> validate_graph_input (PDict [])
   \<and> execute py_str ainvoke stages (PStr [])
       = \<lparr>outcome = Inl (GraphExecutionError
            ''Graph validation failed: Invalid input data for graph execution''),
          attempts = 1, delays = []\<rparr>"
proof -
  have v: "validate_input d = (d \<noteq> PNone)
   \<and> validate_input (PStr []) \<and> validate_input (PList []) \<and> validate_input (PDict [])"
    by (simp add: validate_input_def)
  have n: "Llm_3LLMNode_run nd PNone
       = \<lparr>outcome = Inl (NodeExecutionError
            (''Validation failed in '' @ node_name nd @ '': Invalid input data for ''
               @ node_name nd)),
          attempts = 1, delays = []\<rparr>
   \<and> Llm_2ToolNode_run nd PNone
       = \<lparr>outcome = Inl (NodeExecutionError
            (''Validation failed in '' @ node_name nd @ '': Invalid input data for ''
               @ node_name nd)),
          attempts = 1, delays = []\<rparr>"
    unfolding Llm_3LLMNode_run_def Llm_2ToolNode_run_def upt_max_retries
    by (simp add: node_attempt_def validate_input_def finished_def)
  have g: "\<not> validate_graph_input PNone \<and> \<not> validate_graph_input (PStr [])
   \<and> \<not> validate_graph_input (PList []) \<and> \<not> validate_graph_input (PDict [])"
    by (simp add: validate_graph_input_def strip_def)
  have e: "execute py_str ainvoke stages (PStr [])
       = \<lparr>outcome = Inl (GraphExecutionError
            ''Graph validation failed: Invalid input data for graph execution''),
          attempts = 1, delays = []\<rparr>"
    unfolding execute_def upt_max_retries
    using g by (simp add: graph_attempt_def finished_def)
  from v n g e show ?thesis by blast
qed

text \<open>
  C7, as stated, lets the output validation accept a result only if it holds one of
  the keys \<^verbatim>\<open>results\<close> and \<^verbatim>\<open>messages\<close>. \<^verbatim>\<open>_validate_graph_output\<close> looks for the
  keys in a dictionary only and ends with \<^verbatim>\<open>return True\<close>: the empty list is not
  null, holds neither key, and is accepted.
\<close>

theorem C7_non_dict_counterexample:
  "validate_graph_output (PList [])
   \<and> PList [] \<noteq> PNone
   \<and> py_in (PStr ''results'') (PList []) = Inr False
   \<and> py_in (PStr ''messages'') (PList []) = Inr False"
  by (simp add: validate_graph_output_def)

text \<open>
  C7 (amended): the output validation rejects a null result, accepts a dictionary
  exactly when it has the key \<^verbatim>\<open>results\<close> or the key \<^verbatim>\<open>messages\<close>, and accepts every
  other non-null result; a result that fails it, at whichever attempt, makes
  \<^verbatim>\<open>execute\<close> raise \<^verbatim>\<open>GraphExecutionError\<close> at that attempt, with no further attempt
  and no delay.
\<close>

theorem C7_output_validation:
  "\<not> validate_graph_output PNone
   \<and> validate_graph_output (PDict d)
       = (''results'' \<in> fst ` set d \<or> ''messages'' \<in> fst ` set d)
   \<and> (py_type r \<noteq> NoneType \<and> py_type r \<noteq> TDict \<longrightarrow> validate_graph_output r)
   \<and> (a < max_retries \<and> validate_graph_input input_data
        \<and> ainvoke a (initial_state py_str stages input_data a) = Inr r
        \<and> \<not> validate_graph_output r
        \<longrightarrow> execute_loop py_str ainvoke stages input_data [a..<max_retries]
              = \<lparr>outcome = Inl (GraphExecutionError
                   ''Graph validation failed: Invalid output from graph execution''),
                 attempts = 1, delays = []\<rparr>)
   \<and> (validate_graph_input input_data
        \<and> ainvoke 0 (initial_state py_str stages input_data 0) = Inr r
        \<and> \<not> validate_graph_output r
        \<longrightarrow> execute py_str ainvoke stages input_data
              = \<lparr>outcome = Inl (GraphExecutionError
                   ''Graph validation failed: Invalid output from graph execution''),
                 attempts = 1, delays = []\<rparr>)"
proof -
  have shape: "\<not> validate_graph_output PNone
   \<and> validate_graph_output (PDict d)
       = (''results'' \<in> fst ` set d \<or> ''messages'' \<in> fst ` set d)"
    by (simp add: validate_graph_output_def)
  have other: "py_type r \<noteq> NoneType \<and> py_type r \<noteq> TDict \<longrightarrow> validate_graph_output r"
    by (cases r) (simp_all add: validate_graph_output_def)
  have at_a: "a < max_retries \<and> validate_graph_input input_data
        \<and> ainvoke a (initial_state py_str stages input_data a) = Inr r
        \<and> \<not> validate_graph_output r
        \<longrightarrow> execute_loop py_str ainvoke stages input_data [a..<max_retries]
              = \<lparr>outcome = Inl (GraphExecutionError
                   ''Graph validation failed: Invalid output from graph execution''),
                 attempts = 1, delays = []\<rparr>"
    by (simp add: upt_from graph_attempt_def finished_def)
  have at_0: "validate_graph_input input_data
        \<and> ainvoke 0 (initial_state py_str stages input_data 0) = Inr r
        \<and> \<not> validate_graph_output r
        \<longrightarrow> execute py_str ainvoke stages input_data
              = \<lparr>outcome = Inl (GraphExecutionError
                   ''Graph validation failed: Invalid output from graph execution''),
                 attempts = 1, delays = []\<rparr>"
    unfolding execute_def upt_max_retries
    by (simp add: graph_attempt_def finished_def)
  from shape other at_a at_0 show ?thesis by blast
qed

theorem C7_output_validation_witness:
  "py_type (PInt 7) \<noteq> NoneType \<and> py_type (PInt 7) \<noteq> TDict \<and> validate_graph_output (PInt 7)
   \<and> (1::nat) < max_retries \<and> validate_graph_input (PStr ''hello'')
   \<and> \<not> validate_graph_output (PDict [(''output'', PStr ''done'')])
   \<and> execute_loop plain_str (\<lambda>a s. Inr (PDict [(''output'', PStr ''done'')])) stage_order
        (PStr ''hello'') [1..<max_retries]
       = \<lparr>outcome = Inl (GraphExecutionError
            ''Graph validation failed: Invalid output from graph execution''),
          attempts = 1, delays = []\<rparr>
   \<and> execute plain_str (\<lambda>a s. Inr (PDict [(''output'', PStr ''done'')])) stage_order
        (PStr ''hello'')
       = \<lparr>outcome = Inl (GraphExecutionError
            ''Graph validation failed: Invalid output from graph execution''),
          attempts = 1, delays = []\<rparr>"
proof -
  have h: "py_type (PInt 7) \<noteq> NoneType \<and> py_type (PInt 7) \<noteq> TDict
   \<and> (1::nat) < max_retries \<and> validate_graph_input (PStr ''hello'')
   \<and> \<not> validate_graph_output (PDict [(''output'', PStr ''done'')])"
    by (simp add: max_retries_def validate_graph_input_def validate_graph_output_def
          strip_def is_space_def)
  show ?thesis
    using h
      C7_output_validation [of "[]" "PInt 7" 1 "PStr ''hello''"
        "\<lambda>a s. Inr (PDict [(''output'', PStr ''done'')])" plain_str stage_order]
      C7_output_validation [of "[]" "PDict [(''output'', PStr ''done'')]" 1 "PStr ''hello''"
        "\<lambda>a s. Inr (PDict [(''output'', PStr ''done'')])" plain_str stage_order]
    by simp
qed


text \<open>
  C1: each retry loop (\<^verbatim>\<open>Llm_3LLMNode.run\<close>, \<^verbatim>\<open>Llm_2ToolNode.run\<close>, \<^verbatim>\<open>execute\<close>) makes
  at most 3 attempts. \<open>loop [a..<max_retries]\<close> is the run from attempt \<open>a\<close> on. A
  validation error (\<^verbatim>\<open>ValueError\<close>, \<^verbatim>\<open>TypeError\<close>) at attempt \<open>a\<close> ends the run there:
  one attempt, no delay, the terminal error. After a timeout at attempt \<open>a < 2\<close> the
  loop sleeps \<open>retry_delay * (a + 1)\<close> and goes on with attempt \<open>a + 1\<close>; after any
  other error it sleeps \<open>retry_delay * 2 ^ a\<close>. The tool node has no handler for
  timeouts and sleeps \<open>retry_delay * 2 ^ a\<close> after them, which for \<open>a < 2\<close> is
  \<open>retry_delay * (a + 1)\<close>. At the graph level, an invocation that raises a
  non-validation error at attempts 0 and 1 and then returns a result that passes the
  output validation makes \<^verbatim>\<open>execute\<close> return that result after 3 attempts and the 2
  delays \<open>retry_delay * 2 ^ 0\<close> and \<open>retry_delay * 2 ^ 1\<close>.

  At the node level the last part of C1 fails. Once the compute function has returned,
  \<^verbatim>\<open>run\<close> calls \<^verbatim>\<open>self.validate_output\<close>, which no class defines; the
  \<^verbatim>\<open>AttributeError\<close> is taken by the handler of \<^verbatim>\<open>Exception\<close> like any other runtime
  error. A compute function that raises a non-validation error at attempts 0 and 1 and
  then returns makes \<^verbatim>\<open>run\<close> raise \<^verbatim>\<open>NodeExecutionError\<close> after 3 attempts and the 2
  delays, and no run of a node returns a result, whatever the compute function and
  the input.
\<close>

theorem C1_retry_policy:
  "attempts (Llm_3LLMNode_run nd d) \<le> 3
   \<and> attempts (Llm_2ToolNode_run nd d) \<le> 3
   \<and> attempts (execute py_str ainvoke stages d) \<le> 3
   \<and> (a < max_retries \<and> node_attempt nd d a = Inl e \<and> is_validation_error e \<longrightarrow>
        llm_run_loop nd d [a..<max_retries]
          = finished (Inl (NodeExecutionError
              (''Validation failed in '' @ node_name nd @ '': '' @ exn_str e)))
        \<and> tool_run_loop nd d [a..<max_retries]
          = finished (Inl (NodeExecutionError
              (''Validation failed in '' @ node_name nd @ '': '' @ exn_str e))))
   \<and> (a < max_retries \<and> graph_attempt py_str ainvoke stages d a = Inl e
        \<and> is_validation_error e \<longrightarrow>
        execute_loop py_str ainvoke stages d [a..<max_retries]
          = finished (Inl (GraphExecutionError (''Graph validation failed: '' @ exn_str e))))
   \<and> (a < 2 \<and> node_attempt nd d a = Inl TimeoutError \<longrightarrow>
        llm_run_loop nd d [a..<max_retries]
          = after_sleep (llm_retry_delay * (of_nat a + 1))
              (llm_run_loop nd d [Suc a..<max_retries])
        \<and> tool_run_loop nd d [a..<max_retries]
          = after_sleep (tool_retry_delay * (of_nat a + 1))
              (tool_run_loop nd d [Suc a..<max_retries]))
   \<and> (a < 2 \<and> graph_attempt py_str ainvoke stages d a = Inl TimeoutError \<longrightarrow>
        execute_loop py_str ainvoke stages d [a..<max_retries]
          = after_sleep (graph_retry_delay * (of_nat a + 1))
              (execute_loop py_str ainvoke stages d [Suc a..<max_retries]))
   \<and> (a < 2 \<and> node_attempt nd d a = Inl e \<and> \<not> is_validation_error e \<and> \<not> is_timeout e \<longrightarrow>
        llm_run_loop nd d [a..<max_retries]
          = after_sleep (llm_retry_delay * 2 ^ a) (llm_run_loop nd d [Suc a..<max_retries])
        \<and> tool_run_loop nd d [a..<max_retries]
          = after_sleep (tool_retry_delay * 2 ^ a) (tool_run_loop nd d [Suc a..<max_retries]))
   \<and> (a < 2 \<and> graph_attempt py_str ainvoke stages d a = Inl e
        \<and> \<not> is_validation_error e \<and> \<not> is_timeout e \<longrightarrow>
        execute_loop py_str ainvoke stages d [a..<max_retries]
          = after_sleep (graph_retry_delay * 2 ^ a)
              (execute_loop py_str ainvoke stages d [Suc a..<max_retries]))
   \<and> (validate_input d
        \<and> execute_logic nd 0 d = Inl e0 \<and> \<not> is_validation_error e0
        \<and> execute_logic nd 1 d = Inl e1 \<and> \<not> is_validation_error e1
        \<and> execute_logic nd 2 d = Inr r \<longrightarrow>
        Llm_3LLMNode_run nd d
          = \<lparr>outcome = Inl (NodeExecutionError
               (''Failed to execute '' @ node_name nd @ '' after 3 attempts: ''
                  @ quoted (class_name nd) @ '' object has no attribute ''
                  @ quoted ''validate_output'')),
             attempts = 3,
             delays = [llm_retry_delay * 2 ^ 0, llm_retry_delay * 2 ^ 1]\<rparr>
        \<and> Llm_2ToolNode_run nd d
          = \<lparr>outcome = Inl (NodeExecutionError
               (''Failed to execute '' @ node_name nd @ '' after 3 attempts: ''
                  @ quoted (class_name nd) @ '' object has no attribute ''
                  @ quoted ''validate_output'')),
             attempts = 3,
             delays = [tool_retry_delay * 2 ^ 0, tool_retry_delay * 2 ^ 1]\<rparr>)
   \<and> outcome (Llm_3LLMNode_run nd d) \<noteq> Inr r
   \<and> outcome (Llm_2ToolNode_run nd d) \<noteq> Inr r
   \<and> (validate_graph_input d \<and> validate_graph_output r
        \<and> ainvoke 0 (initial_state py_str stages d 0) = Inl e0 \<and> \<not> is_validation_error e0
        \<and> ainvoke 1 (initial_state py_str stages d 1) = Inl e1 \<and> \<not> is_validation_error e1
        \<and> ainvoke 2 (initial_state py_str stages d 2) = Inr r \<longrightarrow>
        execute py_str ainvoke stages d
          = \<lparr>outcome = Inr r, attempts = 3,
             delays = [graph_retry_delay * 2 ^ 0, graph_retry_delay * 2 ^ 1]\<rparr>)"
proof -
  have bound: "attempts (Llm_3LLMNode_run nd d) \<le> 3
      \<and> attempts (Llm_2ToolNode_run nd d) \<le> 3
      \<and> attempts (execute py_str ainvoke stages d) \<le> 3"
    using llm_attempts_le [of nd d "[0..<max_retries]"]
      tool_attempts_le [of nd d "[0..<max_retries]"]
      execute_attempts_le [of py_str ainvoke stages d "[0..<max_retries]"]
    by (simp add: Llm_3LLMNode_run_def Llm_2ToolNode_run_def execute_def max_retries_def)
  have node_validation:
    "a < max_retries \<and> node_attempt nd d a = Inl e \<and> is_validation_error e \<longrightarrow>
        llm_run_loop nd d [a..<max_retries]
          = finished (Inl (NodeExecutionError
              (''Validation failed in '' @ node_name nd @ '': '' @ exn_str e)))
        \<and> tool_run_loop nd d [a..<max_retries]
          = finished (Inl (NodeExecutionError
              (''Validation failed in '' @ node_name nd @ '': '' @ exn_str e)))"
    by (simp add: upt_from)
  have graph_validation:
    "a < max_retries \<and> graph_attempt py_str ainvoke stages d a = Inl e
        \<and> is_validation_error e \<longrightarrow>
        execute_loop py_str ainvoke stages d [a..<max_retries]
          = finished (Inl (GraphExecutionError (''Graph validation failed: '' @ exn_str e)))"
    by (simp add: upt_from)
  have node_timeout: "a < 2 \<and> node_attempt nd d a = Inl TimeoutError \<longrightarrow>
        llm_run_loop nd d [a..<max_retries]
          = after_sleep (llm_retry_delay * (of_nat a + 1))
              (llm_run_loop nd d [Suc a..<max_retries])
        \<and> tool_run_loop nd d [a..<max_retries]
          = after_sleep (tool_retry_delay * (of_nat a + 1))
              (tool_run_loop nd d [Suc a..<max_retries])"
    by (auto simp: upt_conv_Cons max_retries_def two_pow_small)
  have graph_timeout: "a < 2 \<and> graph_attempt py_str ainvoke stages d a = Inl TimeoutError \<longrightarrow>
        execute_loop py_str ainvoke stages d [a..<max_retries]
          = after_sleep (graph_retry_delay * (of_nat a + 1))
              (execute_loop py_str ainvoke stages d [Suc a..<max_retries])"
    by (auto simp: upt_conv_Cons max_retries_def)
  have node_other:
    "a < 2 \<and> node_attempt nd d a = Inl e \<and> \<not> is_validation_error e \<and> \<not> is_timeout e \<longrightarrow>
        llm_run_loop nd d [a..<max_retries]
          = after_sleep (llm_retry_delay * 2 ^ a) (llm_run_loop nd d [Suc a..<max_retries])
        \<and> tool_run_loop nd d [a..<max_retries]
          = after_sleep (tool_retry_delay * 2 ^ a) (tool_run_loop nd d [Suc a..<max_retries])"
    by (auto simp: upt_conv_Cons max_retries_def)
  have graph_other: "a < 2 \<and> graph_attempt py_str ainvoke stages d a = Inl e
        \<and> \<not> is_validation_error e \<and> \<not> is_timeout e \<longrightarrow>
        execute_loop py_str ainvoke stages d [a..<max_retries]
          = after_sleep (graph_retry_delay * 2 ^ a)
              (execute_loop py_str ainvoke stages d [Suc a..<max_retries])"
    by (auto simp: upt_conv_Cons max_retries_def)
  have node_recover: "validate_input d
        \<and> execute_logic nd 0 d = Inl e0 \<and> \<not> is_validation_error e0
        \<and> execute_logic nd 1 d = Inl e1 \<and> \<not> is_validation_error e1
        \<and> execute_logic nd 2 d = Inr r \<longrightarrow>
        Llm_3LLMNode_run nd d
          = \<lparr>outcome = Inl (NodeExecutionError
               (''Failed to execute '' @ node_name nd @ '' after 3 attempts: ''
                  @ quoted (class_name nd) @ '' object has no attribute ''
                  @ quoted ''validate_output'')),
             attempts = 3,
             delays = [llm_retry_delay * 2 ^ 0, llm_retry_delay * 2 ^ 1]\<rparr>
        \<and> Llm_2ToolNode_run nd d
          = \<lparr>outcome = Inl (NodeExecutionError
               (''Failed to execute '' @ node_name nd @ '' after 3 attempts: ''
                  @ quoted (class_name nd) @ '' object has no attribute ''
                  @ quoted ''validate_output'')),
             attempts = 3,
             delays = [tool_retry_delay * 2 ^ 0, tool_retry_delay * 2 ^ 1]\<rparr>"
    unfolding Llm_3LLMNode_run_def Llm_2ToolNode_run_def upt_max_retries
    by (simp add: node_attempt_def finished_def after_sleep_def max_retries_def)
  have graph_recover: "validate_graph_input d \<and> validate_graph_output r
        \<and> ainvoke 0 (initial_state py_str stages d 0) = Inl e0 \<and> \<not> is_validation_error e0
        \<and> ainvoke 1 (initial_state py_str stages d 1) = Inl e1 \<and> \<not> is_validation_error e1
        \<and> ainvoke 2 (initial_state py_str stages d 2) = Inr r \<longrightarrow>
        execute py_str ainvoke stages d
          = \<lparr>outcome = Inr r, attempts = 3,
             delays = [graph_retry_delay * 2 ^ 0, graph_retry_delay * 2 ^ 1]\<rparr>"
    unfolding execute_def upt_max_retries
    by (simp add: graph_attempt_def finished_def after_sleep_def max_retries_def)
  have node_raises: "outcome (Llm_3LLMNode_run nd d) \<noteq> Inr r
      \<and> outcome (Llm_2ToolNode_run nd d) \<noteq> Inr r"
    by (simp add: Llm_3LLMNode_run_def Llm_2ToolNode_run_def llm_run_loop_raises
          tool_run_loop_raises)
  from bound node_validation graph_validation node_timeout graph_timeout node_other
    graph_other node_recover node_raises graph_recover
  show ?thesis by blast
qed

theorem C1_retry_policy_witness:
  "node_attempt rejecting_node (PStr ''q'') 0 = Inl (ValueError ''bad prompt'')
   \<and> llm_run_loop rejecting_node (PStr ''q'') [0..<max_retries]
       = \<lparr>outcome = Inl (NodeExecutionError ''Validation failed in llm_3: bad prompt''),
          attempts = 1, delays = []\<rparr>
   \<and> graph_attempt plain_str flaky_ainvoke stage_order PNone 1
       = Inl (ValueError ''Invalid input data for graph execution'')
   \<and> execute_loop plain_str flaky_ainvoke stage_order PNone [1..<max_retries]
       = \<lparr>outcome = Inl (GraphExecutionError
            ''Graph validation failed: Invalid input data for graph execution''),
          attempts = 1, delays = []\<rparr>
   \<and> node_attempt flaky_node (PStr ''q'') 0 = Inl TimeoutError
   \<and> delays (llm_run_loop flaky_node (PStr ''q'') [0..<max_retries])
       = 2 # delays (llm_run_loop flaky_node (PStr ''q'') [Suc 0..<max_retries])
   \<and> graph_attempt plain_str flaky_ainvoke stage_order (PStr ''q'') 0 = Inl TimeoutError
   \<and> delays (execute_loop plain_str flaky_ainvoke stage_order (PStr ''q'') [0..<max_retries])
       = 2 # delays (execute_loop plain_str flaky_ainvoke stage_order (PStr ''q'')
                       [Suc 0..<max_retries])
   \<and> node_attempt flaky_node (PStr ''q'') 1 = Inl (OtherError ''connection reset'')
   \<and> delays (llm_run_loop flaky_node (PStr ''q'') [1..<max_retries])
       = 4 # delays (llm_run_loop flaky_node (PStr ''q'') [Suc 1..<max_retries])
   \<and> graph_attempt plain_str flaky_ainvoke stage_order (PStr ''q'') 1
       = Inl (OtherError ''connection reset'')
   \<and> delays (execute_loop plain_str flaky_ainvoke stage_order (PStr ''q'') [1..<max_retries])
       = 4 # delays (execute_loop plain_str flaky_ainvoke stage_order (PStr ''q'')
                       [Suc 1..<max_retries])
   \<and> execute_logic flaky_node 2 (PStr ''q'') = Inr (PStr ''ok'')
   \<and> Llm_3LLMNode_run flaky_node (PStr ''q'')
       = \<lparr>outcome = Inl (NodeExecutionError
            (''Failed to execute llm_3 after 3 attempts: '' @ quoted ''Llm_3LLMNode''
               @ '' object has no attribute '' @ quoted ''validate_output'')),
          attempts = 3, delays = [2, 4]\<rparr>
   \<and> execute_logic flaky_tool 2 (PStr ''q'') = Inr (PStr ''ok'')
   \<and> Llm_2ToolNode_run flaky_tool (PStr ''q'')
       = \<lparr>outcome = Inl (NodeExecutionError
            (''Failed to execute llm_2 after 3 attempts: '' @ quoted ''Llm_2ToolNode''
               @ '' object has no attribute '' @ quoted ''validate_output'')),
          attempts = 3, delays = [1, 2]\<rparr>
   \<and> execute plain_str flaky_ainvoke stage_order (PStr ''q'')
       = \<lparr>outcome = Inr (PDict [(''results'', PDict []), (''messages'', PList [])]),
          attempts = 3, delays = [2, 4]\<rparr>"
proof -
  have in_ok: "validate_input (PStr ''q'') \<and> validate_graph_input (PStr ''q'')
      \<and> \<not> validate_graph_input PNone"
    by (simp add: validate_input_def validate_graph_input_def strip_def is_space_def)
  have rej: "node_attempt rejecting_node (PStr ''q'') 0 = Inl (ValueError ''bad prompt'')"
    by (simp add: node_attempt_def rejecting_node_def validate_input_def)
  have g_rej: "graph_attempt plain_str flaky_ainvoke stage_order PNone 1
       = Inl (ValueError ''Invalid input data for graph execution'')"
    using in_ok by (simp add: graph_attempt_def)
  have n0: "node_attempt flaky_node (PStr ''q'') 0 = Inl TimeoutError"
    and n1: "node_attempt flaky_node (PStr ''q'') 1 = Inl (OtherError ''connection reset'')"
    by (simp_all add: node_attempt_def flaky_node_def flaky_logic_def validate_input_def)
  have g0: "graph_attempt plain_str flaky_ainvoke stage_order (PStr ''q'') 0 = Inl TimeoutError"
    and g1: "graph_attempt plain_str flaky_ainvoke stage_order (PStr ''q'') 1
               = Inl (OtherError ''connection reset'')"
    using in_ok by (simp_all add: graph_attempt_def flaky_ainvoke_def)
  have logic: "node_name flaky_node = ''llm_3'' \<and> class_name flaky_node = ''Llm_3LLMNode''
      \<and> execute_logic flaky_node 0 (PStr ''q'') = Inl TimeoutError
      \<and> execute_logic flaky_node 1 (PStr ''q'') = Inl (OtherError ''connection reset'')
      \<and> execute_logic flaky_node 2 (PStr ''q'') = Inr (PStr ''ok'')"
    by (simp add: flaky_node_def flaky_logic_def)
  have graph: "validate_graph_output (PDict [(''results'', PDict []), (''messages'', PList [])])
      \<and> flaky_ainvoke 0 (initial_state plain_str stage_order (PStr ''q'') 0) = Inl TimeoutError
      \<and> flaky_ainvoke 1 (initial_state plain_str stage_order (PStr ''q'') 1)
          = Inl (OtherError ''connection reset'')
      \<and> flaky_ainvoke 2 (initial_state plain_str stage_order (PStr ''q'') 2)
          = Inr (PDict [(''results'', PDict []), (''messages'', PList [])])"
    by (simp add: flaky_ainvoke_def validate_graph_output_def initial_state_def)
  note c1 = C1_retry_policy [where nd = rejecting_node and d = "PStr ''q''" and a = 0
      and e = "ValueError ''bad prompt''"]
  note c2 = C1_retry_policy [where py_str = plain_str and ainvoke = flaky_ainvoke
      and stages = stage_order and d = PNone and a = 1
      and e = "ValueError ''Invalid input data for graph execution''"]
  note c3 = C1_retry_policy [where nd = flaky_node and d = "PStr ''q''" and a = 0
      and py_str = plain_str and ainvoke = flaky_ainvoke and stages = stage_order
      and r = "PStr ''ok''" and ?e0.0 = TimeoutError
      and ?e1.0 = "OtherError ''connection reset''"]
  note c4 = C1_retry_policy [where nd = flaky_node and d = "PStr ''q''" and a = 1
      and py_str = plain_str and ainvoke = flaky_ainvoke and stages = stage_order
      and e = "OtherError ''connection reset''"]
  note c5 = C1_retry_policy [where py_str = plain_str and ainvoke = flaky_ainvoke
      and stages = stage_order and d = "PStr ''q''"
      and r = "PDict [(''results'', PDict []), (''messages'', PList [])]"
      and ?e0.0 = TimeoutError and ?e1.0 = "OtherError ''connection reset''"]
  have v1: "llm_run_loop rejecting_node (PStr ''q'') [0..<max_retries]
       = \<lparr>outcome = Inl (NodeExecutionError ''Validation failed in llm_3: bad prompt''),
          attempts = 1, delays = []\<rparr>"
    using c1 rej by (simp add: max_retries_def finished_def rejecting_node_def)
  have v2: "execute_loop plain_str flaky_ainvoke stage_order PNone [1..<max_retries]
       = \<lparr>outcome = Inl (GraphExecutionError
            ''Graph validation failed: Invalid input data for graph execution''),
          attempts = 1, delays = []\<rparr>"
    using c2 g_rej by (simp add: max_retries_def finished_def)
  have t3: "delays (llm_run_loop flaky_node (PStr ''q'') [0..<max_retries])
       = 2 # delays (llm_run_loop flaky_node (PStr ''q'') [Suc 0..<max_retries])"
    and t4: "delays (execute_loop plain_str flaky_ainvoke stage_order (PStr ''q'')
                      [0..<max_retries])
       = 2 # delays (execute_loop plain_str flaky_ainvoke stage_order (PStr ''q'')
                       [Suc 0..<max_retries])"
    using c3 n0 g0 by (simp_all add: llm_retry_delay_def graph_retry_delay_def)
  have o5: "delays (llm_run_loop flaky_node (PStr ''q'') [1..<max_retries])
       = 4 # delays (llm_run_loop flaky_node (PStr ''q'') [Suc 1..<max_retries])"
    and o6: "delays (execute_loop plain_str flaky_ainvoke stage_order (PStr ''q'')
                      [1..<max_retries])
       = 4 # delays (execute_loop plain_str flaky_ainvoke stage_order (PStr ''q'')
                       [Suc 1..<max_retries])"
    using c4 n1 g1 by (simp_all add: llm_retry_delay_def graph_retry_delay_def)
  have tool_logic: "node_name flaky_tool = ''llm_2'' \<and> class_name flaky_tool = ''Llm_2ToolNode''
      \<and> execute_logic flaky_tool 0 (PStr ''q'') = Inl TimeoutError
      \<and> execute_logic flaky_tool 1 (PStr ''q'') = Inl (OtherError ''connection reset'')
      \<and> execute_logic flaky_tool 2 (PStr ''q'') = Inr (PStr ''ok'')"
    by (simp add: flaky_tool_def flaky_logic_def)
  note c6 = C1_retry_policy [where nd = flaky_tool and d = "PStr ''q''"
      and r = "PStr ''ok''" and ?e0.0 = TimeoutError
      and ?e1.0 = "OtherError ''connection reset''"]
  have r7: "Llm_3LLMNode_run flaky_node (PStr ''q'')
       = \<lparr>outcome = Inl (NodeExecutionError
            (''Failed to execute llm_3 after 3 attempts: '' @ quoted ''Llm_3LLMNode''
               @ '' object has no attribute '' @ quoted ''validate_output'')),
          attempts = 3, delays = [2, 4]\<rparr>"
    using c3 in_ok logic by (simp add: llm_retry_delay_def)
  have r7t: "Llm_2ToolNode_run flaky_tool (PStr ''q'')
       = \<lparr>outcome = Inl (NodeExecutionError
            (''Failed to execute llm_2 after 3 attempts: '' @ quoted ''Llm_2ToolNode''
               @ '' object has no attribute '' @ quoted ''validate_output'')),
          attempts = 3, delays = [1, 2]\<rparr>"
    using c6 in_ok tool_logic by (simp add: tool_retry_delay_def)
  have r8: "execute plain_str flaky_ainvoke stage_order (PStr ''q'')
       = \<lparr>outcome = Inr (PDict [(''results'', PDict []), (''messages'', PList [])]),
          attempts = 3, delays = [2, 4]\<rparr>"
    using c5 in_ok graph by (simp add: graph_retry_delay_def)
  from rej v1 g_rej v2 n0 t3 g0 t4 n1 o5 g1 o6 logic r7 tool_logic r7t r8
  show ?thesis by simp
qed


section \<open>Graph traversal: results\<close>

lemma in_targets_Edge: "w \<in> set (targets s v (Edge a b)) \<longleftrightarrow> a = v \<and> w = b"
  by (cases "a = v") simp_all

lemma in_targets_Conditional:
  "w \<in> set (targets s v (Conditional a route path_map))
     \<longleftrightarrow> a = v \<and> map_of path_map (route s) = Some w"
  by (cases "a = v"; cases "map_of path_map (route s)") auto

lemma in_successors:
  "w \<in> set (successors es s v) \<longleftrightarrow> (\<exists>e \<in> set es. w \<in> set (targets s v e))"
  by (auto simp: successors_def)

lemma map_enumerate:
  "map (\<lambda>(i, x). g i x) (enumerate 0 xs) = map (\<lambda>i. g i (xs ! i)) [0..<length xs]"
  by (rule nth_equalityI) (simp_all add: nth_enumerate_eq)

lemma state_graph_succ:
  assumes "distinct stages" "stages \<noteq> []"
  shows "set (successors (add_state_graph_edges get_next_stage stages) s START)
           = {Node (stages ! 0)}"
    and "i < length stages \<Longrightarrow>
         set (successors (add_state_graph_edges get_next_stage stages) s (Node (stages ! i)))
           = {if i + 1 < length stages then Node (stages ! (i + 1)) else END}"
proof -
  define F where "F j = (if j < length stages - 1
                  then Conditional (Node (stages ! j)) get_next_stage
                         [(''continue'',
                             if j + 1 < length stages then Node (stages ! (j + 1)) else END),
                          (''end'', END)]
                  else Edge (Node (stages ! j)) END)" for j
  have es: "add_state_graph_edges get_next_stage stages
              = Edge START (Node (stages ! 0)) # map F [0..<length stages]"
    using assms(2) unfolding add_state_graph_edges_def F_def by (simp add: map_enumerate)
  have in_succ: "w \<in> set (successors (add_state_graph_edges get_next_stage stages) s v)
      \<longleftrightarrow> (v = START \<and> w = Node (stages ! 0))
          \<or> (\<exists>j < length stages. w \<in> set (targets s v (F j)))" for w v
    unfolding es by (auto simp: in_successors in_targets_Edge simp del: targets.simps)
  have tg_start: "w \<notin> set (targets s START (F j))" for w j
    unfolding F_def
    by (cases "j < length stages - 1")
       (simp_all add: in_targets_Edge in_targets_Conditional del: targets.simps)
  show "set (successors (add_state_graph_edges get_next_stage stages) s START)
           = {Node (stages ! 0)}"
    using in_succ [of _ START] tg_start by auto
  assume i: "i < length stages"
  have idx: "\<And>j. j < length stages \<Longrightarrow> stages ! j = stages ! i \<longleftrightarrow> j = i"
    using assms(1) i by (simp add: nth_eq_iff_index_eq)
  have tg: "w \<in> set (targets s (Node (stages ! i)) (F j))
      \<longleftrightarrow> j = i \<and> w = (if i + 1 < length stages then Node (stages ! (i + 1)) else END)"
    if "j < length stages" for j w
    unfolding F_def using idx [OF that] that
    by (cases "j < length stages - 1")
       (auto simp: get_next_stage_def in_targets_Edge in_targets_Conditional
          simp del: targets.simps)
  show "set (successors (add_state_graph_edges get_next_stage stages) s (Node (stages ! i)))
           = {if i + 1 < length stages then Node (stages ! (i + 1)) else END}"
  proof (rule set_eqI)
    fix w
    let ?X = "if i + 1 < length stages then Node (stages ! (i + 1)) else END"
    have "w \<in> set (successors (add_state_graph_edges get_next_stage stages) s
                     (Node (stages ! i)))
            \<longleftrightarrow> (\<exists>j < length stages. w \<in> set (targets s (Node (stages ! i)) (F j)))"
      using in_succ [of w "Node (stages ! i)"] by simp
    also have "\<dots> \<longleftrightarrow> (\<exists>j < length stages. j = i \<and> w = ?X)"
      using tg by blast
    also have "\<dots> \<longleftrightarrow> w = ?X"
      using i by blast
    finally show "w \<in> set (successors (add_state_graph_edges get_next_stage stages) s
                     (Node (stages ! i))) \<longleftrightarrow> w \<in> {?X}"
      by simp
  qed
qed


lemma follows_END: "follows fn es s END rest \<longleftrightarrow> rest = []"
  by (cases rest) simp_all

lemma follows_chain:
  assumes succ: "\<And>i s. i < length stages \<Longrightarrow>
            set (successors es s (Node (stages ! i)))
              = {if i + 1 < length stages then Node (stages ! (i + 1)) else END}"
    and "i < length stages"
  shows "follows fn es s (Node (stages ! i)) rest
           \<longleftrightarrow> rest = map Node (drop (Suc i) stages) @ [END]"
  using assms(2)
proof (induction "length stages - i" arbitrary: i s rest)
  case 0
  then show ?case by simp
next
  case (Suc n)
  show ?case
  proof (cases "i + 1 < length stages")
    case True
    have dr: "drop (Suc i) stages = stages ! (Suc i) # drop (Suc (Suc i)) stages"
      using True by (simp add: Cons_nth_drop_Suc)
    have IH: "\<And>s rest. follows fn es s (Node (stages ! Suc i)) rest
           \<longleftrightarrow> rest = map Node (drop (Suc (Suc i)) stages) @ [END]"
      using Suc(1) [of "Suc i"] Suc(2) True by simp
    show ?thesis
    proof (cases rest)
      case Nil
      then show ?thesis by simp
    next
      case (Cons w r)
      then show ?thesis using succ [OF Suc(3)] True IH dr by auto
    qed
  next
    case False
    then have dr: "drop (Suc i) stages = []" by simp
    show ?thesis
    proof (cases rest)
      case Nil
      then show ?thesis by simp
    next
      case (Cons w r)
      then show ?thesis using succ [OF Suc(3)] False dr by (auto simp: follows_END)
    qed
  qed
qed

lemma traversal_from_entry:
  assumes succ: "\<And>i s. i < length stages \<Longrightarrow>
            set (successors es s (Node (stages ! i)))
              = {if i + 1 < length stages then Node (stages ! (i + 1)) else END}"
    and "stages \<noteq> []"
  shows "traversal_from fn es (Node (stages ! 0)) s q \<longleftrightarrow> q = map Node stages @ [END]"
proof -
  have st: "stages = stages ! 0 # drop (Suc 0) stages"
    using assms(2) by (cases stages) simp_all
  have len: "0 < length stages" using assms(2) by simp
  show ?thesis
  proof (cases q)
    case Nil
    then show ?thesis by (simp add: traversal_from_def)
  next
    case (Cons v rest)
    have "traversal_from fn es (Node (stages ! 0)) s q
            \<longleftrightarrow> v = Node (stages ! 0) \<and> rest = map Node (drop (Suc 0) stages) @ [END]"
      using follows_chain [of stages es 0 fn s rest, OF succ len] Cons
      by (auto simp: traversal_from_def)
    also have "\<dots> \<longleftrightarrow> q = Node (stages ! 0) # map Node (drop (Suc 0) stages) @ [END]"
      using Cons by auto
    also have "Node (stages ! 0) # map Node (drop (Suc 0) stages) @ [END]
                 = map Node stages @ [END]"
      using st by (metis append_Cons list.simps(9))
    finally show ?thesis .
  qed
qed

lemma state_graph_traversal:
  assumes "stages \<noteq> []" "distinct stages"
  shows "traversal_from fn (add_state_graph_edges get_next_stage stages) START s p
           \<longleftrightarrow> p = START # map Node stages @ [END]"
proof -
  let ?es = "add_state_graph_edges get_next_stage stages"
  have succ: "\<And>i s. i < length stages \<Longrightarrow>
            set (successors ?es s (Node (stages ! i)))
              = {if i + 1 < length stages then Node (stages ! (i + 1)) else END}"
    using state_graph_succ(2) [OF assms(2) assms(1)] by simp
  have start: "\<And>s. set (successors ?es s START) = {Node (stages ! 0)}"
    using state_graph_succ(1) [OF assms(2) assms(1)] by simp
  have entry: "\<And>s q. traversal_from fn ?es (Node (stages ! 0)) s q
                  \<longleftrightarrow> q = map Node stages @ [END]"
    using traversal_from_entry [of stages ?es fn, OF succ assms(1)] by simp
  show ?thesis
  proof (cases p)
    case Nil
    then show ?thesis by (simp add: traversal_from_def)
  next
    case (Cons v rest)
    show ?thesis
    proof (cases rest)
      case Nil
      with Cons show ?thesis by (auto simp: traversal_from_def)
    next
      case (Cons w r)
      have "traversal_from fn ?es START s p
              \<longleftrightarrow> v = START \<and> w = Node (stages ! 0) \<and> follows fn ?es s w r"
        using \<open>p = v # rest\<close> Cons start by (auto simp: traversal_from_def)
      also have "\<dots> \<longleftrightarrow> v = START \<and> traversal_from fn ?es (Node (stages ! 0)) s (w # r)"
        by (auto simp: traversal_from_def)
      also have "\<dots> \<longleftrightarrow> v = START \<and> w # r = map Node stages @ [END]"
        using entry by simp
      finally show ?thesis using \<open>p = v # rest\<close> Cons by auto
    qed
  qed
qed


lemma visited_stages: "visited (map Node stages @ [END]) = stages"
  by (induction stages) simp_all



lemma node_function_raises:
  assumes "run (processing_input_of py_str state stage) = Inl e"
  shows "node_function py_str stage label error_label (Inr run) state
           = state\<lparr>error := Some (error_label @ '': '' @ exn_str e)\<rparr>"
  using assms
  by (simp add: node_function_def set_error_def update_state_def no_updates_def get_or_def)

text \<open>
  C5: when the wrapped node's \<^verbatim>\<open>run\<close> raises, the node function returns the state it
  was given with the error field set to the stage's label (\<^verbatim>\<open>Llm_1 node error\<close>,
  \<^verbatim>\<open>Llm_1 tool node error\<close>, ...) followed by the text of the exception, results
  included unchanged; the default routing function returns \<^verbatim>\<open>continue\<close> on every
  state; and so, for distinct stages, the only traversal of the graph from START goes
  through every stage in declared order, whichever node functions fail. Exceptions are
  the instances of \<^verbatim>\<open>Exception\<close>, which is what the handler catches.
\<close>

theorem C5_stage_errors_recorded:
  "(run (processing_input_of py_str state stage) = Inl e \<longrightarrow>
      node_function py_str stage label error_label (Inr run) state
        = state\<lparr>error := Some (error_label @ '': '' @ exn_str e)\<rparr>
      \<and> results (node_function py_str stage label error_label (Inr run) state)
          = results state)
   \<and> (inst ''llm_1'' ''llm'' = Inr run
        \<and> run (processing_input_of py_str state ''llm_1'') = Inl e \<longrightarrow>
        llm_1_node py_str inst state
          = state\<lparr>error := Some (''Llm_1 node error: '' @ exn_str e)\<rparr>)
   \<and> (inst ''llm_2'' ''llm'' = Inr run
        \<and> run (processing_input_of py_str state ''llm_2'') = Inl e \<longrightarrow>
        llm_2_node py_str inst state
          = state\<lparr>error := Some (''Llm_2 node error: '' @ exn_str e)\<rparr>)
   \<and> (inst ''llm_3'' ''llm'' = Inr run
        \<and> run (processing_input_of py_str state ''llm_3'') = Inl e \<longrightarrow>
        llm_3_node py_str inst state
          = state\<lparr>error := Some (''Llm_3 node error: '' @ exn_str e)\<rparr>)
   \<and> (inst ''llm_1'' ''tool'' = Inr run
        \<and> run (processing_input_of py_str state ''llm_1'') = Inl e \<longrightarrow>
        llm_1_tool_node py_str inst state
          = state\<lparr>error := Some (''Llm_1 tool node error: '' @ exn_str e)\<rparr>)
   \<and> (inst ''llm_2'' ''tool'' = Inr run
        \<and> run (processing_input_of py_str state ''llm_2'') = Inl e \<longrightarrow>
        llm_2_tool_node py_str inst state
          = state\<lparr>error := Some (''Llm_2 tool node error: '' @ exn_str e)\<rparr>)
   \<and> (inst ''llm_3'' ''tool'' = Inr run
        \<and> run (processing_input_of py_str state ''llm_3'') = Inl e \<longrightarrow>
        llm_3_tool_node py_str inst state
          = state\<lparr>error := Some (''Llm_3 tool node error: '' @ exn_str e)\<rparr>)
   \<and> get_next_stage state = ''continue''
   \<and> (stages \<noteq> [] \<and> distinct stages \<longrightarrow>
        (traversal_from (node_fn (get_graph_nodes py_str inst stages))
           (add_state_graph_edges get_next_stage stages) START s p
         \<longleftrightarrow> p = START # map Node stages @ [END])
        \<and> visited (START # map Node stages @ [END]) = stages)"
proof -
  have generic: "run (processing_input_of py_str state stage) = Inl e \<longrightarrow>
      node_function py_str stage label error_label (Inr run) state
        = state\<lparr>error := Some (error_label @ '': '' @ exn_str e)\<rparr>
      \<and> results (node_function py_str stage label error_label (Inr run) state)
          = results state"
    by (simp add: node_function_raises)
  have l1: "inst ''llm_1'' ''llm'' = Inr run
        \<and> run (processing_input_of py_str state ''llm_1'') = Inl e \<longrightarrow>
        llm_1_node py_str inst state
          = state\<lparr>error := Some (''Llm_1 node error: '' @ exn_str e)\<rparr>"
    by (simp add: llm_1_node_def node_function_raises)
  have l2: "inst ''llm_2'' ''llm'' = Inr run
        \<and> run (processing_input_of py_str state ''llm_2'') = Inl e \<longrightarrow>
        llm_2_node py_str inst state
          = state\<lparr>error := Some (''Llm_2 node error: '' @ exn_str e)\<rparr>"
    by (simp add: llm_2_node_def node_function_raises)
  have l3: "inst ''llm_3'' ''llm'' = Inr run
        \<and> run (processing_input_of py_str state ''llm_3'') = Inl e \<longrightarrow>
        llm_3_node py_str inst state
          = state\<lparr>error := Some (''Llm_3 node error: '' @ exn_str e)\<rparr>"
    by (simp add: llm_3_node_def node_function_raises)
  have t1: "inst ''llm_1'' ''tool'' = Inr run
        \<and> run (processing_input_of py_str state ''llm_1'') = Inl e \<longrightarrow>
        llm_1_tool_node py_str inst state
          = state\<lparr>error := Some (''Llm_1 tool node error: '' @ exn_str e)\<rparr>"
    by (simp add: llm_1_tool_node_def node_function_raises)
  have t2: "inst ''llm_2'' ''tool'' = Inr run
        \<and> run (processing_input_of py_str state ''llm_2'') = Inl e \<longrightarrow>
        llm_2_tool_node py_str inst state
          = state\<lparr>error := Some (''Llm_2 tool node error: '' @ exn_str e)\<rparr>"
    by (simp add: llm_2_tool_node_def node_function_raises)
  have t3: "inst ''llm_3'' ''tool'' = Inr run
        \<and> run (processing_input_of py_str state ''llm_3'') = Inl e \<longrightarrow>
        llm_3_tool_node py_str inst state
          = state\<lparr>error := Some (''Llm_3 tool node error: '' @ exn_str e)\<rparr>"
    by (simp add: llm_3_tool_node_def node_function_raises)
  have route: "get_next_stage state = ''continue''"
    by (simp add: get_next_stage_def)
  have walk: "stages \<noteq> [] \<and> distinct stages \<longrightarrow>
        (traversal_from (node_fn (get_graph_nodes py_str inst stages))
           (add_state_graph_edges get_next_stage stages) START s p
         \<longleftrightarrow> p = START # map Node stages @ [END])
        \<and> visited (START # map Node stages @ [END]) = stages"
    using state_graph_traversal [of stages "node_fn (get_graph_nodes py_str inst stages)" s p]
    by (simp add: visited_stages)
  from generic l1 l2 l3 t1 t2 t3 route walk show ?thesis by blast
qed

theorem C5_stage_errors_recorded_witness:
  "failing_all ''llm_1'' ''llm'' = Inr (\<lambda>d. Inl (OtherError ''model unavailable''))
   \<and> failing_all ''llm_3'' ''tool'' = Inr (\<lambda>d. Inl (OtherError ''model unavailable''))
   \<and> llm_1_node plain_str failing_all sample_state
       = sample_state\<lparr>error := Some ''Llm_1 node error: model unavailable''\<rparr>
   \<and> llm_2_node plain_str failing_all sample_state
       = sample_state\<lparr>error := Some ''Llm_2 node error: model unavailable''\<rparr>
   \<and> llm_3_node plain_str failing_all sample_state
       = sample_state\<lparr>error := Some ''Llm_3 node error: model unavailable''\<rparr>
   \<and> llm_1_tool_node plain_str failing_all sample_state
       = sample_state\<lparr>error := Some ''Llm_1 tool node error: model unavailable''\<rparr>
   \<and> llm_2_tool_node plain_str failing_all sample_state
       = sample_state\<lparr>error := Some ''Llm_2 tool node error: model unavailable''\<rparr>
   \<and> llm_3_tool_node plain_str failing_all sample_state
       = sample_state\<lparr>error := Some ''Llm_3 tool node error: model unavailable''\<rparr>
   \<and> stage_order \<noteq> [] \<and> distinct stage_order
   \<and> traversal_from (node_fn (get_graph_nodes plain_str failing_all stage_order))
       (add_state_graph_edges get_next_stage stage_order) START sample_state
       [START, Node ''llm_1'', Node ''llm_2'', Node ''llm_3'', END]
   \<and> traversal_from (node_fn (get_graph_nodes plain_str failing_first stage_order))
       (add_state_graph_edges get_next_stage stage_order) START sample_state
       [START, Node ''llm_1'', Node ''llm_2'', Node ''llm_3'', END]
   \<and> error (final_state (node_fn (get_graph_nodes plain_str failing_first stage_order))
              sample_state [START, Node ''llm_1'', Node ''llm_2'', Node ''llm_3'', END])
       = Some ''Llm_1 tool node error: model unavailable''
   \<and> results (final_state (node_fn (get_graph_nodes plain_str failing_first stage_order))
              sample_state [START, Node ''llm_1'', Node ''llm_2'', Node ''llm_3'', END])
       = [(''llm_2'', PStr ''done llm_2''), (''llm_3'', PStr ''done llm_3'')]"
proof -
  have inst: "failing_all stage kind = Inr (\<lambda>d. Inl (OtherError ''model unavailable''))"
    for stage kind
    by (simp add: failing_all_def)
  have h: "stage_order \<noteq> [] \<and> distinct stage_order"
    by (simp add: stage_order_def)
  have path: "START # map Node stage_order @ [END]
                = [START, Node ''llm_1'', Node ''llm_2'', Node ''llm_3'', END]"
    by (simp add: stage_order_def)
  note c = C5_stage_errors_recorded [where inst = failing_all and py_str = plain_str
      and state = sample_state and run = "\<lambda>d. Inl (OtherError ''model unavailable'')"
      and e = "OtherError ''model unavailable''" and stages = stage_order
      and s = sample_state
      and p = "[START, Node ''llm_1'', Node ''llm_2'', Node ''llm_3'', END]"]
  note c' = C5_stage_errors_recorded [where inst = failing_first and py_str = plain_str
      and stages = stage_order and s = sample_state
      and p = "[START, Node ''llm_1'', Node ''llm_2'', Node ''llm_3'', END]"]
  have failed: "llm_1_node plain_str failing_all sample_state
       = sample_state\<lparr>error := Some ''Llm_1 node error: model unavailable''\<rparr>
   \<and> llm_2_node plain_str failing_all sample_state
       = sample_state\<lparr>error := Some ''Llm_2 node error: model unavailable''\<rparr>
   \<and> llm_3_node plain_str failing_all sample_state
       = sample_state\<lparr>error := Some ''Llm_3 node error: model unavailable''\<rparr>
   \<and> llm_1_tool_node plain_str failing_all sample_state
       = sample_state\<lparr>error := Some ''Llm_1 tool node error: model unavailable''\<rparr>
   \<and> llm_2_tool_node plain_str failing_all sample_state
       = sample_state\<lparr>error := Some ''Llm_2 tool node error: model unavailable''\<rparr>
   \<and> llm_3_tool_node plain_str failing_all sample_state
       = sample_state\<lparr>error := Some ''Llm_3 tool node error: model unavailable''\<rparr>"
    using c inst by simp
  have walk: "traversal_from (node_fn (get_graph_nodes plain_str failing_all stage_order))
       (add_state_graph_edges get_next_stage stage_order) START sample_state
       [START, Node ''llm_1'', Node ''llm_2'', Node ''llm_3'', END]"
    using c h path by simp
  have walk': "traversal_from (node_fn (get_graph_nodes plain_str failing_first stage_order))
       (add_state_graph_edges get_next_stage stage_order) START sample_state
       [START, Node ''llm_1'', Node ''llm_2'', Node ''llm_3'', END]"
    using c' h path by simp
  have nodes: "get_graph_nodes plain_str failing_first stage_order
      = [(''llm_1'', llm_1_tool_node plain_str failing_first),
         (''llm_2'', llm_2_tool_node plain_str failing_first),
         (''llm_3'', llm_3_tool_node plain_str failing_first)]"
    by (simp add: get_graph_nodes_def stage_order_def Let_def)
  have fin: "final_state (node_fn (get_graph_nodes plain_str failing_first stage_order))
              sample_state [START, Node ''llm_1'', Node ''llm_2'', Node ''llm_3'', END]
      = \<lparr>input = PStr ''hello'',
         messages = [HumanMessage ''hello'', HumanMessage ''hello'', HumanMessage ''hello'',
                     HumanMessage ''hello'', AIMessage ''Llm_2 Tool: done llm_2'',
                     HumanMessage ''hello'', HumanMessage ''hello'', HumanMessage ''hello'',
                     HumanMessage ''hello'', AIMessage ''Llm_2 Tool: done llm_2'',
                     AIMessage ''Llm_3 Tool: done llm_3''],
         context_data = [],
         results = [(''llm_2'', PStr ''done llm_2''), (''llm_3'', PStr ''done llm_3'')],
         current_stage = Some ''llm_1'',
         error = Some ''Llm_1 tool node error: model unavailable'',
         metadata = [(''attempt'', PInt 1), (''max_retries'', PInt 3)]\<rparr>"
    unfolding nodes
    by (simp add: node_fn_def llm_1_tool_node_def llm_2_tool_node_def llm_3_tool_node_def
          node_function_def processing_input_of_def previous_results_of_def
          index_or_minus_one_def stage_order_def failing_first_def sample_state_def
          initial_state_def plain_str_def merge_update_def set_error_def set_stage_result_def
          add_message_def update_state_def no_updates_def get_or_def max_retries_def Let_def)
  from inst [of "''llm_1''" "''llm''"] inst [of "''llm_3''" "''tool''"] failed h walk walk' fin
  show ?thesis by simp
qed

end
